theory Spec2Isabelle
  imports Complex_Main "HOL-Library.Word"
begin

section \<open>The spec/gloss to metal/rough converter (\<^verbatim>\<open>metalRough\<close>)\<close>

text \<open>
  The converter \<^verbatim>\<open>metalRough\<close> is the source under verification. It works on a scene
  graph (document, materials, textures, extension records) whose classes are not part of
  the source at hand; that graph is embedded here as an explicit store: textures and
  extension records live in append-only lists, and a reference to one of them is its
  index there. A disposed object leaves \<open>None\<close> at its index, so an index is never
  reused and object identity is index equality.
\<close>

subsection \<open>Numbers\<close>

text \<open>
  The factors of a material are JavaScript numbers (IEEE doubles). Their arithmetic is a
  parameter of the model: the record below carries the five operations the converter
  uses, and every theorem holds for any choice of them, the double arithmetic of the
  language as well as exact arithmetic. \<open>num_lit\<close> is a numeric literal,
  \<open>num_round\<close> is \<^verbatim>\<open>Math.round\<close>, \<open>num_to_uint8\<close> is the conversion a store
  into an 8-bit pixel channel applies.
\<close>

record 'n arith =
  num_lit :: "int \<Rightarrow> 'n"
  num_sub :: "'n \<Rightarrow> 'n \<Rightarrow> 'n"
  num_mul :: "'n \<Rightarrow> 'n \<Rightarrow> 'n"
  num_round :: "'n \<Rightarrow> 'n"
  num_to_uint8 :: "'n \<Rightarrow> 8 word"

text \<open>
  Exact arithmetic on the reals: \<^verbatim>\<open>Math.round\<close> rounds to the nearest integer, a tie
  going up; a store into an 8-bit channel truncates towards zero and wraps modulo 256.
\<close>

definition exact_arith :: "real arith" where
  "exact_arith =
     \<lparr> num_lit = real_of_int,
       num_sub = (\<lambda>x y. x - y),
       num_mul = (\<lambda>x y. x * y),
       num_round = (\<lambda>x. real_of_int \<lfloor>x + 1 / 2\<rfloor>),
       num_to_uint8 = (\<lambda>x. word_of_int (if 0 \<le> x then \<lfloor>x\<rfloor> else \<lceil>x\<rceil>)) \<rparr>"

subsection \<open>Data model\<close>

type_synonym byte = "8 word"
type_synonym texture_ref = nat
type_synonym property_ref = nat

text \<open>
  Modelled from the spec: the pixel buffer handed to a rewrite callback (the array
  class is not among the sources). It has a height \<open>shape0\<close>, a width \<open>shape1\<close> and
  four 8-bit channels per pixel, read and written by \<open>(i, j, channel)\<close>.
\<close>

record pixels =
  shape0 :: nat
  shape1 :: nat
  chan :: "nat \<times> nat \<times> nat \<Rightarrow> byte"

definition pixels_get :: "pixels \<Rightarrow> nat \<Rightarrow> nat \<Rightarrow> nat \<Rightarrow> byte" where
  "pixels_get p i j c = chan p (i, j, c)"

definition pixels_set :: "pixels \<Rightarrow> nat \<Rightarrow> nat \<Rightarrow> nat \<Rightarrow> byte \<Rightarrow> pixels" where
  "pixels_set p i j c v = p\<lparr>chan := (chan p)((i, j, c) := v)\<rparr>"

text \<open>
  Modelled from the spec: a texture owns a pixel buffer. \<open>image = None\<close> is a texture
  whose image cannot be decoded into pixels (a texture just created has no image yet).
\<close>

record texture =
  image :: "pixels option"

text \<open>
  Modelled from the spec: a texture binding carries a texture-coordinate index and
  sampler settings (filters and wrap modes).
\<close>

record textureInfo =
  texCoord :: nat

record textureSampler =
  magFilter :: "nat option"
  minFilter :: "nat option"
  wrapS :: nat
  wrapT :: nat

definition default_textureInfo :: textureInfo where
  "default_textureInfo = \<lparr> texCoord = 0 \<rparr>"

definition default_textureSampler :: textureSampler where
  "default_textureSampler =
     \<lparr> magFilter = None, minFilter = None, wrapS = 10497, wrapT = 10497 \<rparr>"

text \<open>
  Modelled from the spec: the input record \<^verbatim>\<open>PBRSpecularGlossiness\<close> (its class is not
  among the sources), with the fields the converter reads through its getters.
\<close>

record 'n specGloss =
  diffuseFactor :: "'n list"
  specularFactor :: "'n list"
  glossinessFactor :: 'n
  diffuseTexture :: "texture_ref option"
  diffuseTextureInfo :: textureInfo
  diffuseTextureSampler :: textureSampler
  specularGlossinessTexture :: "texture_ref option"
  specularGlossinessTextureInfo :: textureInfo
  specularGlossinessTextureSampler :: textureSampler

text \<open>
  Modelled from the spec: the output records \<^verbatim>\<open>Specular\<close> and \<^verbatim>\<open>IOR\<close> (their classes
  are not among the sources), with the fields the converter writes through its setters.
\<close>

record 'n specular =
  spec_specularFactor :: 'n
  spec_specularColorFactor :: "'n list"
  specularTexture :: "texture_ref option"
  specularTextureInfo :: textureInfo
  specularTextureSampler :: textureSampler

record 'n ior_record =
  ior :: 'n

text \<open>
  Modelled from the spec: a material (its class is not among the sources), with its
  metal/rough factors and texture bindings, and the extension records attached to it
  under the three extension names the converter deals with. \<open>ext_specGloss m = None\<close>
  is a material with no spec/gloss record attached.
\<close>

record 'n material =
  baseColorFactor :: "'n list"
  metallicFactor :: 'n
  roughnessFactor :: 'n
  baseColorTexture :: "texture_ref option"
  baseColorTextureInfo :: textureInfo
  baseColorTextureSampler :: textureSampler
  metallicRoughnessTexture :: "texture_ref option"
  metallicRoughnessTextureInfo :: textureInfo
  metallicRoughnessTextureSampler :: textureSampler
  ext_specGloss :: "property_ref option"
  ext_ior :: "property_ref option"
  ext_specular :: "property_ref option"

text \<open>
  Modelled from the spec: the document (its class is not among the sources).
  \<open>extensionsUsed\<close> holds the names of the extensions declared as used, in the order
  of their declaration. \<open>otherLinks t\<close> counts the parents of texture \<open>t\<close> that lie
  outside this model (other material slots, records of other extensions); the converter
  never touches them.
\<close>

record 'n document =
  extensionsUsed :: "string list"
  materials :: "'n material list"
  textures :: "texture option list"
  specGlossProps :: "'n specGloss option list"
  specularProps :: "'n specular option list"
  iorProps :: "'n ior_record option list"
  otherLinks :: "texture_ref \<Rightarrow> nat"

datatype error = RecodingFailure

datatype log_entry = Warn string | Debug string

definition NAME :: string where
  "NAME = ''metalRough''"

definition KHR_MATERIALS_PBR_SPECULAR_GLOSSINESS :: string where
  "KHR_MATERIALS_PBR_SPECULAR_GLOSSINESS = ''KHR_materials_pbrSpecularGlossiness''"

definition KHR_MATERIALS_IOR :: string where
  "KHR_MATERIALS_IOR = ''KHR_materials_ior''"

definition KHR_MATERIALS_SPECULAR :: string where
  "KHR_MATERIALS_SPECULAR = ''KHR_materials_specular''"

subsection \<open>Scene-graph operations\<close>

text \<open>
  Modelled from the spec: the operations of the scene graph and of the extension
  registries that \<^verbatim>\<open>metalRough\<close> calls (\<^verbatim>\<open>createExtension\<close>, \<^verbatim>\<open>dispose\<close>,
  \<^verbatim>\<open>createTexture\<close>, \<^verbatim>\<open>getExtension\<close>, \<^verbatim>\<open>listParents\<close>, the record constructors and
  setters). Their classes are not among the sources; the repository's test of the
  specular extension shows that creating an extension declares it as used and that
  disposing it detaches its records from the materials.
\<close>

definition live :: "'n document \<Rightarrow> texture_ref \<Rightarrow> bool" where
  "live d t = (t < length (textures d) \<and> textures d ! t \<noteq> None)"

definition getImage :: "'n document \<Rightarrow> texture_ref \<Rightarrow> pixels option" where
  "getImage d t =
     (if t < length (textures d)
      then (case textures d ! t of None \<Rightarrow> None | Some tx \<Rightarrow> image tx)
      else None)"

definition setImage :: "texture_ref \<Rightarrow> pixels \<Rightarrow> 'n document \<Rightarrow> 'n document" where
  "setImage t px d =
     d\<lparr>textures := (textures d)[t := map_option (\<lambda>tx. tx\<lparr>image := Some px\<rparr>) (textures d ! t)]\<rparr>"

definition createTexture :: "'n document \<Rightarrow> texture_ref \<times> 'n document" where
  "createTexture d =
     (length (textures d), d\<lparr>textures := textures d @ [Some \<lparr> image = None \<rparr>]\<rparr>)"

definition createExtension :: "string \<Rightarrow> 'n document \<Rightarrow> 'n document" where
  "createExtension name d =
     (if name \<in> set (extensionsUsed d) then d
      else d\<lparr>extensionsUsed := extensionsUsed d @ [name]\<rparr>)"

definition createSpecular ::
  "'n \<Rightarrow> 'n list \<Rightarrow> 'n document \<Rightarrow> property_ref \<times> 'n document" where
  "createSpecular f c d =
     (length (specularProps d),
      d\<lparr>specularProps := specularProps d @
         [Some \<lparr> spec_specularFactor = f, spec_specularColorFactor = c,
                 specularTexture = None, specularTextureInfo = default_textureInfo,
                 specularTextureSampler = default_textureSampler \<rparr>]\<rparr>)"

definition createIOR :: "'n \<Rightarrow> 'n document \<Rightarrow> property_ref \<times> 'n document" where
  "createIOR v d = (length (iorProps d), d\<lparr>iorProps := iorProps d @ [Some \<lparr> ior = v \<rparr>]\<rparr>)"

definition lookup :: "'a option list \<Rightarrow> nat \<Rightarrow> 'a option" where
  "lookup xs p = (if p < length xs then xs ! p else None)"

definition getExtension_specGloss :: "'n document \<Rightarrow> 'n material \<Rightarrow> 'n specGloss option" where
  "getExtension_specGloss d m =
     (case ext_specGloss m of None \<Rightarrow> None | Some p \<Rightarrow> lookup (specGlossProps d) p)"

definition getExtension_specular :: "'n document \<Rightarrow> 'n material \<Rightarrow> 'n specular option" where
  "getExtension_specular d m =
     (case ext_specular m of None \<Rightarrow> None | Some p \<Rightarrow> lookup (specularProps d) p)"

definition getExtension_ior :: "'n document \<Rightarrow> 'n material \<Rightarrow> 'n ior_record option" where
  "getExtension_ior d m =
     (case ext_ior m of None \<Rightarrow> None | Some p \<Rightarrow> lookup (iorProps d) p)"

definition updMaterial :: "nat \<Rightarrow> ('n material \<Rightarrow> 'n material) \<Rightarrow> 'n document \<Rightarrow> 'n document" where
  "updMaterial k f d = d\<lparr>materials := (materials d)[k := f (materials d ! k)]\<rparr>"

definition updSpecular ::
  "property_ref \<Rightarrow> ('n specular \<Rightarrow> 'n specular) \<Rightarrow> 'n document \<Rightarrow> 'n document" where
  "updSpecular p f d =
     d\<lparr>specularProps := (specularProps d)[p := map_option f (specularProps d ! p)]\<rparr>"

text \<open>
  Modelled from the spec: \<^verbatim>\<open>dispose\<close> of the spec/gloss extension. The extension is no
  longer declared as used, its records are detached from every material and leave the
  graph.
\<close>

definition dispose_specGlossExtension :: "'n document \<Rightarrow> 'n document" where
  "dispose_specGlossExtension d =
     d\<lparr>extensionsUsed := removeAll KHR_MATERIALS_PBR_SPECULAR_GLOSSINESS (extensionsUsed d),
       materials := map (\<lambda>m. m\<lparr>ext_specGloss := None\<rparr>) (materials d),
       specGlossProps := map (\<lambda>_. None) (specGlossProps d)\<rparr>"

text \<open>
  Modelled from the spec: \<^verbatim>\<open>listParents\<close>. The parents of a texture, one entry per
  link: the document root, which holds every texture of the document, then the material
  slots and the record slots bound to it. So a texture with exactly one parent is a
  texture that nothing but the root refers to. A texture that has left the graph has no
  parents.
\<close>

datatype parent =
  Root | MaterialParent nat | SpecGlossParent nat | SpecularParent nat | OtherParent

definition links :: "texture_ref \<Rightarrow> texture_ref option list \<Rightarrow> nat" where
  "links t slots = length (filter (\<lambda>s. s = Some t) slots)"

definition materialParents :: "'n document \<Rightarrow> texture_ref \<Rightarrow> parent list" where
  "materialParents d t =
     concat (map (\<lambda>k. replicate
        (links t [baseColorTexture (materials d ! k), metallicRoughnessTexture (materials d ! k)])
        (MaterialParent k)) [0..<length (materials d)])"

definition specGlossParents :: "'n document \<Rightarrow> texture_ref \<Rightarrow> parent list" where
  "specGlossParents d t =
     concat (map (\<lambda>p. case specGlossProps d ! p of None \<Rightarrow> []
        | Some sg \<Rightarrow> replicate (links t [diffuseTexture sg, specularGlossinessTexture sg])
            (SpecGlossParent p)) [0..<length (specGlossProps d)])"

definition specularParents :: "'n document \<Rightarrow> texture_ref \<Rightarrow> parent list" where
  "specularParents d t =
     concat (map (\<lambda>p. case specularProps d ! p of None \<Rightarrow> []
        | Some s \<Rightarrow> replicate (links t [specularTexture s]) (SpecularParent p))
        [0..<length (specularProps d)])"

definition listParents :: "'n document \<Rightarrow> texture_ref \<Rightarrow> parent list" where
  "listParents d t =
     (if live d t
      then Root # materialParents d t @ specGlossParents d t @ specularParents d t
             @ replicate (otherLinks d t) OtherParent
      else [])"

text \<open>
  Modelled from the spec: \<^verbatim>\<open>dispose\<close> of a texture removes it from the graph together
  with every link to it.
\<close>

definition clearSlot :: "texture_ref \<Rightarrow> texture_ref option \<Rightarrow> texture_ref option" where
  "clearSlot t s = (if s = Some t then None else s)"

definition dispose_texture :: "texture_ref \<Rightarrow> 'n document \<Rightarrow> 'n document" where
  "dispose_texture t d =
     d\<lparr>textures := (textures d)[t := None],
       materials := map (\<lambda>m. m\<lparr>baseColorTexture := clearSlot t (baseColorTexture m),
                                metallicRoughnessTexture := clearSlot t (metallicRoughnessTexture m)\<rparr>)
                      (materials d),
       specGlossProps := map (map_option (\<lambda>sg. sg\<lparr>diffuseTexture := clearSlot t (diffuseTexture sg),
                                specularGlossinessTexture := clearSlot t (specularGlossinessTexture sg)\<rparr>))
                      (specGlossProps d),
       specularProps := map (map_option (\<lambda>s. s\<lparr>specularTexture := clearSlot t (specularTexture s)\<rparr>))
                      (specularProps d),
       otherLinks := (otherLinks d)(t := 0)\<rparr>"

subsection \<open>Texture recoding\<close>

text \<open>
  Modelled from the spec: \<^verbatim>\<open>rewriteTexture\<close> (imported from \<^verbatim>\<open>./utils\<close>, not among the
  sources). It decodes the source texture into a pixel buffer, calls the rewrite function
  once per pixel coordinate in row-major order, and stores the buffer as the image of the
  target texture; the source texture keeps its image. A source that cannot be decoded is
  a recoding failure, which aborts the run.
\<close>

definition rewritePixels :: "(pixels \<Rightarrow> nat \<Rightarrow> nat \<Rightarrow> pixels) \<Rightarrow> pixels \<Rightarrow> pixels" where
  "rewritePixels fn px =
     foldl (\<lambda>p i. foldl (\<lambda>q j. fn q i j) p [0..<shape1 px]) px [0..<shape0 px]"

definition rewriteTexture ::
  "texture_ref \<Rightarrow> texture_ref \<Rightarrow> (pixels \<Rightarrow> nat \<Rightarrow> nat \<Rightarrow> pixels) \<Rightarrow> 'n document
     \<Rightarrow> error + 'n document" where
  "rewriteTexture source target fn d =
     (case getImage d source of
        None \<Rightarrow> Inl RecodingFailure
      | Some px \<Rightarrow> Inr (setImage target (rewritePixels fn px) d))"

subsection \<open>The converter\<close>

text \<open>The two rewrite callbacks of \<^verbatim>\<open>metalRough\<close>.\<close>

definition removeGlossiness :: "pixels \<Rightarrow> nat \<Rightarrow> nat \<Rightarrow> pixels" where
  "removeGlossiness pixels i j = pixels_set pixels i j 3 255"

definition invertGlossiness :: "'n arith \<Rightarrow> 'n \<Rightarrow> pixels \<Rightarrow> nat \<Rightarrow> nat \<Rightarrow> pixels" where
  "invertGlossiness A glossiness pixels i j =
     (let roughness = num_sub A (num_lit A 255)
            (num_round A (num_mul A (num_lit A (uint (pixels_get pixels i j 3))) glossiness));
          p0 = pixels_set pixels i j 0 0;
          p1 = pixels_set p0 i j 1 (num_to_uint8 A roughness);
          p2 = pixels_set p1 i j 2 0
      in pixels_set p2 i j 3 255)"

text \<open>The set of stashed textures: insertion order, no duplicates, \<open>None\<close> for \<^verbatim>\<open>null\<close>.\<close>

definition set_add :: "'a \<Rightarrow> 'a list \<Rightarrow> 'a list" where
  "set_add x xs = (if x \<in> set xs then xs else xs @ [x])"

text \<open>
  The body of the loop over the materials, for the material at index \<open>k\<close>, in the order
  of the source: create the specular record, stash the textures (\<open>stashed\<close> lists the
  three textures the source adds to the set, in its order), set the metal/rough factors
  and attach the IOR and specular records (\<open>setUpMetalRough\<close>), move the diffuse
  texture (\<open>moveDiffuse\<close>), then either recode the combined texture into two new
  textures or fold the glossiness into the roughness factor
  (\<open>moveSpecularGlossiness\<close>), and at last detach the spec/gloss record.
\<close>

definition moveDiffuse :: "nat \<Rightarrow> 'n specGloss \<Rightarrow> 'n document \<Rightarrow> 'n document" where
  "moveDiffuse k specGloss d =
     (case diffuseTexture specGloss of
        None \<Rightarrow> d
      | Some dt \<Rightarrow> updMaterial k (\<lambda>m. m\<lparr>baseColorTexture := Some dt,
            baseColorTextureInfo := diffuseTextureInfo specGloss,
            baseColorTextureSampler := diffuseTextureSampler specGloss\<rparr>) d)"

definition moveSpecularGlossiness ::
  "'n arith \<Rightarrow> nat \<Rightarrow> property_ref \<Rightarrow> 'n specGloss \<Rightarrow> 'n document \<Rightarrow> error + 'n document" where
  "moveSpecularGlossiness A k specular specGloss d =
     (case specularGlossinessTexture specGloss of
        Some sgTexture \<Rightarrow>
          (case createTexture d of (specularTexture', d1) \<Rightarrow>
            (case rewriteTexture sgTexture specularTexture' removeGlossiness d1 of
               Inl e \<Rightarrow> Inl e
             | Inr d2 \<Rightarrow>
                 (case createTexture
                     (updSpecular specular (\<lambda>s. s\<lparr>specularTexture := Some specularTexture',
                        specularTextureInfo := specularGlossinessTextureInfo specGloss,
                        specularTextureSampler := specularGlossinessTextureSampler specGloss\<rparr>) d2)
                  of (metalRoughTexture, d3) \<Rightarrow>
                    (case rewriteTexture sgTexture metalRoughTexture
                            (invertGlossiness A (glossinessFactor specGloss)) d3 of
                       Inl e \<Rightarrow> Inl e
                     | Inr d4 \<Rightarrow>
                         Inr (updMaterial k
                                (\<lambda>m. m\<lparr>metallicRoughnessTexture := Some metalRoughTexture,
                                   metallicRoughnessTextureInfo := specularGlossinessTextureInfo specGloss,
                                   metallicRoughnessTextureSampler :=
                                     specularGlossinessTextureSampler specGloss\<rparr>)
                                d4)))))
      | None \<Rightarrow>
          Inr (updMaterial k
                 (\<lambda>m. m\<lparr>roughnessFactor := num_sub A (num_lit A 1) (glossinessFactor specGloss)\<rparr>)
                 (updSpecular specular
                    (\<lambda>s. s\<lparr>spec_specularColorFactor := specularFactor specGloss\<rparr>) d)))"

definition setUpMetalRough ::
  "'n arith \<Rightarrow> nat \<Rightarrow> 'n specGloss \<Rightarrow> property_ref \<Rightarrow> property_ref \<Rightarrow> 'n document
     \<Rightarrow> 'n document" where
  "setUpMetalRough A k specGloss ior' specular d =
     updMaterial k (\<lambda>m. m\<lparr>baseColorFactor := diffuseFactor specGloss,
          metallicFactor := num_lit A 0,
          roughnessFactor := num_lit A 1,
          ext_ior := Some ior',
          ext_specular := Some specular\<rparr>) d"

definition stashed :: "'n document \<Rightarrow> nat \<Rightarrow> texture_ref option list" where
  "stashed d k =
     (case getExtension_specGloss d (materials d ! k) of
        None \<Rightarrow> []
      | Some specGloss \<Rightarrow>
          [specularGlossinessTexture specGloss, baseColorTexture (materials d ! k),
           metallicRoughnessTexture (materials d ! k)])"

definition convertMaterial ::
  "'n arith \<Rightarrow> nat \<Rightarrow> 'n document \<times> texture_ref option list
     \<Rightarrow> error + 'n document \<times> texture_ref option list" where
  "convertMaterial A k st =
     (case st of (d, inputTextures) \<Rightarrow>
       (case getExtension_specGloss d (materials d ! k) of
          None \<Rightarrow> Inr (d, inputTextures)
        | Some specGloss \<Rightarrow>
            (case createSpecular (num_lit A 1) (specularFactor specGloss) d of (specular, d1) \<Rightarrow>
              (case createIOR (num_lit A 1000) d1 of (ior', d2) \<Rightarrow>
                (case moveSpecularGlossiness A k specular specGloss
                        (moveDiffuse k specGloss
                           (setUpMetalRough A k specGloss ior' specular d2)) of
                   Inl e \<Rightarrow> Inl e
                 | Inr d3 \<Rightarrow>
                     Inr (updMaterial k (\<lambda>m. m\<lparr>ext_specGloss := None\<rparr>) d3,
                          foldl (\<lambda>s x. set_add x s) inputTextures (stashed d k)))))))"

fun convertMaterials ::
  "'n arith \<Rightarrow> nat list \<Rightarrow> 'n document \<times> texture_ref option list
     \<Rightarrow> error + 'n document \<times> texture_ref option list" where
  "convertMaterials A [] st = Inr st"
| "convertMaterials A (k # ks) st =
     (case convertMaterial A k st of Inl e \<Rightarrow> Inl e | Inr st' \<Rightarrow> convertMaterials A ks st')"

text \<open>The cleanup loop over the stashed textures.\<close>

fun cleanUp :: "texture_ref option list \<Rightarrow> 'n document \<Rightarrow> 'n document" where
  "cleanUp [] d = d"
| "cleanUp (None # texs) d = cleanUp texs d"
| "cleanUp (Some t # texs) d =
     cleanUp texs (if length (listParents d t) = 1 then dispose_texture t d else d)"

text \<open>
  The three \<^verbatim>\<open>createExtension\<close> calls that open the run, and the loop over the
  materials of the document that follows them: the loop returns the document and the
  set of stashed textures.
\<close>

definition createExtensions :: "'n document \<Rightarrow> 'n document" where
  "createExtensions doc =
     createExtension KHR_MATERIALS_PBR_SPECULAR_GLOSSINESS
       (createExtension KHR_MATERIALS_SPECULAR
          (createExtension KHR_MATERIALS_IOR doc))"

definition materialLoop ::
  "'n arith \<Rightarrow> 'n document \<Rightarrow> error + 'n document \<times> texture_ref option list" where
  "materialLoop A doc =
     convertMaterials A [0..<length (materials doc)] (createExtensions doc, [])"

text \<open>
  The whole run. It returns the document as the run leaves it and the messages handed
  to the logger, or the failure that aborted it.
\<close>

definition metalRough :: "'n arith \<Rightarrow> 'n document \<Rightarrow> error + 'n document \<times> log_entry list" where
  "metalRough A doc =
     (if KHR_MATERIALS_PBR_SPECULAR_GLOSSINESS \<notin> set (extensionsUsed doc)
      then Inr (doc, [Warn (NAME @ '': Extension '' @ KHR_MATERIALS_PBR_SPECULAR_GLOSSINESS
                            @ '' not found on given document.'')])
      else
        (case materialLoop A doc of
           Inl e \<Rightarrow> Inl e
         | Inr (d, inputTextures) \<Rightarrow>
             Inr (cleanUp inputTextures (dispose_specGlossExtension d),
                  [Debug (NAME @ '': Complete.'')])))"

subsection \<open>Notions used in the proofs\<close>

text \<open>
  \<open>extends xs ys\<close>: the store \<open>ys\<close> keeps every entry of \<open>xs\<close> at its index and may
  hold further ones. \<open>grows d d'\<close>: what every step of the material loop preserves.
\<close>

definition extends :: "'a list \<Rightarrow> 'a list \<Rightarrow> bool" where
  "extends xs ys = (length xs \<le> length ys \<and> (\<forall>i<length xs. ys ! i = xs ! i))"

definition grows :: "'n document \<Rightarrow> 'n document \<Rightarrow> bool" where
  "grows d d' =
     (extensionsUsed d' = extensionsUsed d \<and> length (materials d') = length (materials d)
      \<and> specGlossProps d' = specGlossProps d \<and> otherLinks d' = otherLinks d
      \<and> extends (textures d) (textures d') \<and> extends (specularProps d) (specularProps d')
      \<and> extends (iorProps d) (iorProps d'))"

text \<open>
  \<open>pointwise fn F\<close>: the callback \<open>fn\<close> rewrites the pixel at \<open>(i, j)\<close> by \<open>F\<close>, from the
  channels of that pixel alone, and leaves every other pixel as it is.
\<close>

definition pointwise :: "(pixels \<Rightarrow> nat \<Rightarrow> nat \<Rightarrow> pixels) \<Rightarrow> ((nat \<Rightarrow> byte) \<Rightarrow> nat \<Rightarrow> byte) \<Rightarrow> bool" where
  "pointwise fn F = (\<forall>p i j. fn p i j =
      p\<lparr>chan := (\<lambda>(i', j', c). if i' = i \<and> j' = j then F (\<lambda>c'. chan p (i, j, c')) c
                                 else chan p (i', j', c))\<rparr>)"

text \<open>
  \<open>decodable d k\<close>: the combined specular+glossiness texture that the spec/gloss record of
  material \<open>k\<close> binds, if there is one, has an image that decodes into pixels.
\<close>

definition decodable :: "'n document \<Rightarrow> nat \<Rightarrow> bool" where
  "decodable d k =
     (case getExtension_specGloss d (materials d ! k) of
        None \<Rightarrow> True
      | Some specGloss \<Rightarrow>
          (case specularGlossinessTexture specGloss of
             None \<Rightarrow> True
           | Some t \<Rightarrow> getImage d t \<noteq> None))"

subsection \<open>Example documents\<close>

text \<open>
  \<open>doc0\<close> declares the spec/gloss extension and has two materials: the first carries a
  spec/gloss record without textures, the second carries none. \<open>doc0'\<close> is the document
  the run leaves. \<open>doc_plain\<close> is \<open>doc0\<close> without the declaration.
\<close>

definition sg0 :: "real specGloss" where
  "sg0 = \<lparr> diffuseFactor = [1, 0, 0, 1], specularFactor = [1 / 2, 1 / 2, 1 / 2],
     glossinessFactor = 4 / 5, diffuseTexture = None, diffuseTextureInfo = default_textureInfo,
     diffuseTextureSampler = default_textureSampler, specularGlossinessTexture = None,
     specularGlossinessTextureInfo = default_textureInfo,
     specularGlossinessTextureSampler = default_textureSampler \<rparr>"

definition mat0 :: "real material" where
  "mat0 = \<lparr> baseColorFactor = [1, 1, 1, 1], metallicFactor = 1, roughnessFactor = 1,
     baseColorTexture = None, baseColorTextureInfo = default_textureInfo,
     baseColorTextureSampler = default_textureSampler,
     metallicRoughnessTexture = None, metallicRoughnessTextureInfo = default_textureInfo,
     metallicRoughnessTextureSampler = default_textureSampler,
     ext_specGloss = Some 0, ext_ior = None, ext_specular = None \<rparr>"

definition mat1 :: "real material" where
  "mat1 = mat0\<lparr>ext_specGloss := None\<rparr>"

definition doc0 :: "real document" where
  "doc0 = \<lparr> extensionsUsed = [''KHR_materials_pbrSpecularGlossiness''],
     materials = [mat0, mat1],
     textures = [], specGlossProps = [Some sg0], specularProps = [], iorProps = [],
     otherLinks = (\<lambda>_. 0) \<rparr>"

definition doc0' :: "real document" where
  "doc0' = \<lparr> extensionsUsed = [''KHR_materials_ior'', ''KHR_materials_specular''],
     materials =
       [\<lparr> baseColorFactor = [1, 0, 0, 1], metallicFactor = 0, roughnessFactor = 1 / 5,
          baseColorTexture = None, baseColorTextureInfo = default_textureInfo,
          baseColorTextureSampler = default_textureSampler,
          metallicRoughnessTexture = None, metallicRoughnessTextureInfo = default_textureInfo,
          metallicRoughnessTextureSampler = default_textureSampler,
          ext_specGloss = None, ext_ior = Some 0, ext_specular = Some 0 \<rparr>,
        mat1],
     textures = [], specGlossProps = [None],
     specularProps =
       [Some \<lparr> spec_specularFactor = 1, spec_specularColorFactor = [1 / 2, 1 / 2, 1 / 2],
          specularTexture = None, specularTextureInfo = default_textureInfo,
          specularTextureSampler = default_textureSampler \<rparr>],
     iorProps = [Some \<lparr> ior = 1000 \<rparr>], otherLinks = (\<lambda>_. 0) \<rparr>"

definition doc_plain :: "real document" where
  "doc_plain = doc0\<lparr>extensionsUsed := []\<rparr>"

text \<open>
  \<open>doc_none\<close> declares the spec/gloss extension, but its only material has no record
  attached. \<open>doc_none'\<close> is the document the run leaves.
\<close>

definition doc_none :: "real document" where
  "doc_none = \<lparr> extensionsUsed = [''KHR_materials_pbrSpecularGlossiness''],
     materials = [mat1],
     textures = [], specGlossProps = [], specularProps = [], iorProps = [],
     otherLinks = (\<lambda>_. 0) \<rparr>"

definition doc_none' :: "real document" where
  "doc_none' = doc_none\<lparr>extensionsUsed := [''KHR_materials_ior'', ''KHR_materials_specular'']\<rparr>"

text \<open>
  \<open>doc_tex\<close> has four textures: texture 0 is the combined specular+glossiness texture of
  the spec/gloss record, one pixel high and two wide; texture 1 is its diffuse texture;
  texture 2 is the base-colour texture of the first material; texture 3 is the
  metallic-roughness texture of the first material and the base-colour texture of the
  second, which has no spec/gloss record. \<open>doc_texL\<close> is the document after the loop
  over the materials, \<open>inp_tex\<close> the set of stashed textures, \<open>doc_texB\<close> the document
  once the spec/gloss extension is disposed, \<open>doc_tex'\<close> the document the run leaves.
\<close>

definition px0 :: pixels where
  "px0 = \<lparr> shape0 = 1, shape1 = 2, chan = (\<lambda>(i, j, c). if c = 3 then 128 else 7) \<rparr>"

definition info1 :: textureInfo where
  "info1 = \<lparr> texCoord = 1 \<rparr>"

definition sampler1 :: textureSampler where
  "sampler1 = \<lparr> magFilter = Some 9729, minFilter = None, wrapS = 33071, wrapT = 10497 \<rparr>"

definition info2 :: textureInfo where
  "info2 = \<lparr> texCoord = 2 \<rparr>"

definition sampler2 :: textureSampler where
  "sampler2 = \<lparr> magFilter = None, minFilter = Some 9728, wrapS = 10497, wrapT = 33648 \<rparr>"

definition sgT :: "real specGloss" where
  "sgT = \<lparr> diffuseFactor = [1, 0, 0, 1], specularFactor = [1 / 2, 1 / 2, 1 / 2],
     glossinessFactor = 4 / 5, diffuseTexture = Some 1, diffuseTextureInfo = info1,
     diffuseTextureSampler = sampler1, specularGlossinessTexture = Some 0,
     specularGlossinessTextureInfo = info2,
     specularGlossinessTextureSampler = sampler2 \<rparr>"

definition matT :: "real material" where
  "matT = mat0\<lparr>baseColorTexture := Some 2, metallicRoughnessTexture := Some 3\<rparr>"

definition matU :: "real material" where
  "matU = mat1\<lparr>baseColorTexture := Some 3\<rparr>"

definition matT' :: "real material" where
  "matT' = \<lparr> baseColorFactor = [1, 0, 0, 1], metallicFactor = 0, roughnessFactor = 1,
     baseColorTexture = Some 1, baseColorTextureInfo = info1,
     baseColorTextureSampler = sampler1,
     metallicRoughnessTexture = Some 5, metallicRoughnessTextureInfo = info2,
     metallicRoughnessTextureSampler = sampler2,
     ext_specGloss = None, ext_ior = Some 0, ext_specular = Some 0 \<rparr>"

definition specularT :: "real specular" where
  "specularT = \<lparr> spec_specularFactor = 1, spec_specularColorFactor = [1 / 2, 1 / 2, 1 / 2],
     specularTexture = Some 4, specularTextureInfo = info2,
     specularTextureSampler = sampler2 \<rparr>"

definition doc_tex :: "real document" where
  "doc_tex = \<lparr> extensionsUsed = [''KHR_materials_pbrSpecularGlossiness''],
     materials = [matT, matU],
     textures = [Some \<lparr> image = Some px0 \<rparr>, Some \<lparr> image = None \<rparr>,
                 Some \<lparr> image = None \<rparr>, Some \<lparr> image = None \<rparr>],
     specGlossProps = [Some sgT], specularProps = [], iorProps = [],
     otherLinks = (\<lambda>_. 0) \<rparr>"

definition doc_texL :: "real document" where
  "doc_texL = \<lparr> extensionsUsed = [''KHR_materials_pbrSpecularGlossiness'',
       ''KHR_materials_ior'', ''KHR_materials_specular''],
     materials = [matT', matU],
     textures = [Some \<lparr> image = Some px0 \<rparr>, Some \<lparr> image = None \<rparr>,
                 Some \<lparr> image = None \<rparr>, Some \<lparr> image = None \<rparr>,
                 Some \<lparr> image = Some (rewritePixels removeGlossiness px0) \<rparr>,
                 Some \<lparr> image = Some (rewritePixels (invertGlossiness exact_arith (4 / 5)) px0) \<rparr>],
     specGlossProps = [Some sgT], specularProps = [Some specularT],
     iorProps = [Some \<lparr> ior = 1000 \<rparr>], otherLinks = (\<lambda>_. 0) \<rparr>"

definition inp_tex :: "texture_ref option list" where
  "inp_tex = [Some 0, Some 2, Some 3]"

definition doc_texB :: "real document" where
  "doc_texB = doc_texL\<lparr>extensionsUsed := [''KHR_materials_ior'', ''KHR_materials_specular''],
     specGlossProps := [None]\<rparr>"

definition doc_tex' :: "real document" where
  "doc_tex' = doc_texB\<lparr>textures :=
       [None, Some \<lparr> image = None \<rparr>, None, Some \<lparr> image = None \<rparr>,
        Some \<lparr> image = Some (rewritePixels removeGlossiness px0) \<rparr>,
        Some \<lparr> image = Some (rewritePixels (invertGlossiness exact_arith (4 / 5)) px0) \<rparr>]\<rparr>"

definition complete_log :: "log_entry list" where
  "complete_log = [Debug ''metalRough: Complete.'']"

definition not_found_log :: "log_entry list" where
  "not_found_log = [Warn
     ''metalRough: Extension KHR_materials_pbrSpecularGlossiness not found on given document.'']"

section \<open>Properties of the converter\<close>

subsection \<open>Stores that only grow\<close>

lemma extends_refl: "extends xs xs"
  by (simp add: extends_def)

lemma extends_trans: "extends xs ys \<Longrightarrow> extends ys zs \<Longrightarrow> extends xs zs"
  by (auto simp: extends_def)

lemma grows_refl: "grows d d"
  by (simp add: grows_def extends_refl)

lemma grows_trans: "grows d d' \<Longrightarrow> grows d' d'' \<Longrightarrow> grows d d''"
  unfolding grows_def by (metis extends_trans)

lemma grows_moveSG:
  assumes "moveSpecularGlossiness A k sp sg d = Inr d'" "length (specularProps d0) \<le> sp" "grows d0 d"
  shows "grows d0 d'"
  using assms
  by (auto simp: moveSpecularGlossiness_def grows_def createTexture_def rewriteTexture_def
      setImage_def updSpecular_def updMaterial_def getImage_def extends_def nth_append
      split: option.splits sum.splits if_splits prod.splits)

lemma moveSG_others:
  assumes "moveSpecularGlossiness A k sp sg d = Inr d'" "j \<noteq> k"
  shows "materials d' ! j = materials d ! j"
  using assms
  by (auto simp: moveSpecularGlossiness_def createTexture_def rewriteTexture_def
      setImage_def updSpecular_def updMaterial_def
      split: option.splits sum.splits if_splits prod.splits)

lemma grows_convertMaterial:
  assumes "convertMaterial A k (d, inp) = Inr (d', inp')"
  shows "grows d d'"
proof (cases "getExtension_specGloss d (materials d ! k)")
  case None
  with assms show ?thesis by (simp add: convertMaterial_def grows_refl)
next
  case (Some sg)
  let ?d2 = "moveDiffuse k sg
               (updMaterial k (\<lambda>m. m\<lparr>baseColorFactor := diffuseFactor sg,
                    metallicFactor := num_lit A 0, roughnessFactor := num_lit A 1,
                    ext_ior := Some (length (iorProps d)),
                    ext_specular := Some (length (specularProps d))\<rparr>)
                 (snd (createIOR (num_lit A 1000)
                    (snd (createSpecular (num_lit A 1) (specularFactor sg) d)))))"
  from assms Some obtain d3 where
    m: "moveSpecularGlossiness A k (length (specularProps d)) sg ?d2 = Inr d3"
    and d': "d' = updMaterial k (\<lambda>m. m\<lparr>ext_specGloss := None\<rparr>) d3"
    by (auto simp: convertMaterial_def createSpecular_def createIOR_def setUpMetalRough_def
        split: sum.splits)
  have "grows d ?d2"
    by (auto simp: grows_def moveDiffuse_def updMaterial_def createIOR_def createSpecular_def
        extends_def nth_append split: option.splits)
  from grows_moveSG [OF m _ this] have "grows d d3" by simp
  then show ?thesis by (simp add: d' grows_def updMaterial_def)
qed

lemma convertMaterial_others:
  assumes "convertMaterial A k (d, inp) = Inr (d', inp')" "j \<noteq> k"
  shows "materials d' ! j = materials d ! j"
  using assms
  by (auto simp: convertMaterial_def createSpecular_def createIOR_def moveDiffuse_def
      setUpMetalRough_def updMaterial_def dest!: moveSG_others [where j = j] split: option.splits sum.splits)

lemma convertMaterials_append:
  "convertMaterials A (ks @ ks') st =
     (case convertMaterials A ks st of Inl e \<Rightarrow> Inl e | Inr st' \<Rightarrow> convertMaterials A ks' st')"
  by (induction ks arbitrary: st) (auto split: sum.splits)

lemma grows_convertMaterials:
  "convertMaterials A ks (d, inp) = Inr (d', inp') \<Longrightarrow> grows d d'"
proof (induction ks arbitrary: d inp)
  case Nil
  then show ?case by (simp add: grows_refl)
next
  case (Cons k ks)
  then show ?case
    by (auto split: sum.splits dest!: grows_convertMaterial intro: grows_trans)
qed

lemma convertMaterials_others:
  "convertMaterials A ks (d, inp) = Inr (d', inp') \<Longrightarrow> j \<notin> set ks \<Longrightarrow>
     materials d' ! j = materials d ! j"
proof (induction ks arbitrary: d inp)
  case Nil
  then show ?case by simp
next
  case (Cons k ks)
  then show ?case
    by (auto split: sum.splits dest!: convertMaterial_others [where j = j])
qed


subsection \<open>Parents and disposal\<close>

lemma concat_upt_Nil: "concat (map g [0..<n]) = [] \<longleftrightarrow> (\<forall>k<n. g k = [])"
  by auto

lemma links_zero: "links t slots = 0 \<longleftrightarrow> Some t \<notin> set slots"
  by (auto simp: links_def filter_empty_conv)

lemma length_concat_upt_ge: "k < n \<Longrightarrow> length (g k) \<le> length (concat (map g [0..<n]))"
  by (simp add: length_concat member_le_sum_list)

lemma materialParents_Nil:
  "materialParents d t = [] \<longleftrightarrow>
     (\<forall>k<length (materials d). baseColorTexture (materials d ! k) \<noteq> Some t
        \<and> metallicRoughnessTexture (materials d ! k) \<noteq> Some t)"
  by (auto simp: materialParents_def links_def)

lemma specGlossParents_Nil:
  "specGlossParents d t = [] \<longleftrightarrow>
     (\<forall>p<length (specGlossProps d). \<forall>sg. specGlossProps d ! p = Some sg \<longrightarrow>
        diffuseTexture sg \<noteq> Some t \<and> specularGlossinessTexture sg \<noteq> Some t)"
  by (auto simp: specGlossParents_def links_def split: option.splits)

lemma specularParents_Nil:
  "specularParents d t = [] \<longleftrightarrow>
     (\<forall>p<length (specularProps d). \<forall>s. specularProps d ! p = Some s \<longrightarrow>
        specularTexture s \<noteq> Some t)"
  by (auto simp: specularParents_def links_def split: option.splits)

lemma one_parent:
  assumes "length (listParents d t) = 1"
  shows "live d t" "materialParents d t = []" "specGlossParents d t = []"
    "specularParents d t = []" "otherLinks d t = 0"
  using assms by (auto simp: listParents_def split: if_splits)

lemma map_idem: "(\<And>x. x \<in> set xs \<Longrightarrow> f x = x) \<Longrightarrow> map f xs = xs"
  by (induction xs) auto

lemma dispose_texture_one_parent:
  assumes "length (listParents d t) = 1"
  shows "dispose_texture t d = d\<lparr>textures := (textures d)[t := None]\<rparr>"
proof -
  note op = one_parent [OF assms]
  have m: "map (\<lambda>m. m\<lparr>baseColorTexture := clearSlot t (baseColorTexture m),
              metallicRoughnessTexture := clearSlot t (metallicRoughnessTexture m)\<rparr>) (materials d)
           = materials d"
    using op(2) by (intro map_idem) (auto simp: materialParents_Nil in_set_conv_nth clearSlot_def)
  have sg: "map (map_option (\<lambda>sg. sg\<lparr>diffuseTexture := clearSlot t (diffuseTexture sg),
              specularGlossinessTexture := clearSlot t (specularGlossinessTexture sg)\<rparr>))
              (specGlossProps d) = specGlossProps d"
  proof (intro map_idem)
    fix x assume "x \<in> set (specGlossProps d)"
    with op(3) show "map_option (\<lambda>sg. sg\<lparr>diffuseTexture := clearSlot t (diffuseTexture sg),
              specularGlossinessTexture := clearSlot t (specularGlossinessTexture sg)\<rparr>) x = x"
      by (cases x) (auto simp: specGlossParents_Nil in_set_conv_nth clearSlot_def)
  qed
  have sp: "map (map_option (\<lambda>s. s\<lparr>specularTexture := clearSlot t (specularTexture s)\<rparr>))
              (specularProps d) = specularProps d"
  proof (intro map_idem)
    fix x assume "x \<in> set (specularProps d)"
    with op(4) show "map_option (\<lambda>s. s\<lparr>specularTexture := clearSlot t (specularTexture s)\<rparr>) x = x"
      by (cases x) (auto simp: specularParents_Nil in_set_conv_nth clearSlot_def)
  qed
  have ol: "(otherLinks d)(t := 0) = otherLinks d"
    using op(5) by (auto simp: fun_eq_iff)
  show ?thesis
    by (simp add: dispose_texture_def m sg sp ol)
qed

lemma listParents_remove_other:
  "t \<noteq> t' \<Longrightarrow> listParents (d\<lparr>textures := (textures d)[t' := None]\<rparr>) t = listParents d t"
  by (simp add: listParents_def live_def materialParents_def specGlossParents_def
      specularParents_def)

lemma listParents_removed: "listParents (d\<lparr>textures := (textures d)[t := None]\<rparr>) t = []"
  by (simp add: listParents_def live_def)

lemma cleanUp_fields:
  "\<exists>txs. cleanUp inp d = d\<lparr>textures := txs\<rparr> \<and> length txs = length (textures d)"
proof (induction inp d rule: cleanUp.induct)
  case (1 d)
  show ?case by (rule exI [of _ "textures d"]) simp
next
  case (2 texs d)
  then show ?case by simp
next
  case (3 t texs d)
  then show ?case
    by (auto simp: dispose_texture_one_parent)
qed

lemma cleanUp_textures:
  "t < length (textures d) \<Longrightarrow>
   textures (cleanUp inp d) ! t =
     (if Some t \<in> set inp \<and> length (listParents d t) = 1 then None else textures d ! t)"
proof (induction inp d rule: cleanUp.induct)
  case (1 d)
  then show ?case by simp
next
  case (2 texs d)
  then show ?case by simp
next
  case (3 t' texs d)
  show ?case
  proof (cases "length (listParents d t') = 1")
    case False
    with 3 show ?thesis by auto
  next
    case True
    let ?d1 = "d\<lparr>textures := (textures d)[t' := None]\<rparr>"
    have ih: "textures (cleanUp texs ?d1) ! t =
       (if Some t \<in> set texs \<and> length (listParents ?d1 t) = 1 then None else textures ?d1 ! t)"
      using 3 True by (simp add: dispose_texture_one_parent)
    show ?thesis
    proof (cases "t = t'")
      case True
      with ih \<open>length (listParents d t') = 1\<close> 3(2) show ?thesis
        by (simp add: dispose_texture_one_parent listParents_removed)
    next
      case False
      with ih \<open>length (listParents d t') = 1\<close> show ?thesis
        by (simp add: dispose_texture_one_parent listParents_remove_other)
    qed
  qed
qed


subsection \<open>The run\<close>

lemma metalRough_unused:
  "KHR_MATERIALS_PBR_SPECULAR_GLOSSINESS \<notin> set (extensionsUsed doc) \<Longrightarrow>
   metalRough A doc = Inr (doc, [Warn
     ''metalRough: Extension KHR_materials_pbrSpecularGlossiness not found on given document.''])"
  by (simp add: metalRough_def NAME_def KHR_MATERIALS_PBR_SPECULAR_GLOSSINESS_def)

lemma createExtensions_fields:
  "materials (createExtensions doc) = materials doc" "textures (createExtensions doc) = textures doc"
  "specGlossProps (createExtensions doc) = specGlossProps doc"
  "specularProps (createExtensions doc) = specularProps doc" "iorProps (createExtensions doc) = iorProps doc"
  "otherLinks (createExtensions doc) = otherLinks doc"
  by (simp_all add: createExtensions_def createExtension_def)

lemma createExtensions_used:
  "KHR_MATERIALS_IOR \<in> set (extensionsUsed (createExtensions doc))"
  "KHR_MATERIALS_SPECULAR \<in> set (extensionsUsed (createExtensions doc))"
  by (simp_all add: createExtensions_def createExtension_def)

lemma metalRough_used:
  assumes "KHR_MATERIALS_PBR_SPECULAR_GLOSSINESS \<in> set (extensionsUsed doc)"
    and "metalRough A doc = Inr (d', l)"
  shows "\<exists>d inp. materialLoop A doc = Inr (d, inp)
    \<and> d' = cleanUp inp (dispose_specGlossExtension d)
    \<and> l = [Debug (NAME @ '': Complete.'')]"
  using assms by (auto simp: metalRough_def split: sum.splits)

lemma materialLoop_grows:
  assumes "materialLoop A doc = Inr (d, inp)"
  shows "grows (createExtensions doc) d"
  using assms unfolding materialLoop_def
  by (rule grows_convertMaterials)

lemma final_fields:
  assumes "KHR_MATERIALS_PBR_SPECULAR_GLOSSINESS \<in> set (extensionsUsed doc)"
    and "metalRough A doc = Inr (d', l)" and "materialLoop A doc = Inr (d, inp)"
  shows "extensionsUsed d' =
           removeAll KHR_MATERIALS_PBR_SPECULAR_GLOSSINESS (extensionsUsed (createExtensions doc))"
    and "materials d' = map (\<lambda>m. m\<lparr>ext_specGloss := None\<rparr>) (materials d)"
    and "specularProps d' = specularProps d" and "iorProps d' = iorProps d"
    and "length (textures d') = length (textures d)"
proof -
  from assms have d': "d' = cleanUp inp (dispose_specGlossExtension d)"
    by (auto simp: metalRough_def)
  obtain txs where c: "d' = (dispose_specGlossExtension d)\<lparr>textures := txs\<rparr>"
    and len: "length txs = length (textures (dispose_specGlossExtension d))"
    using cleanUp_fields [of inp "dispose_specGlossExtension d"] d' by auto
  from materialLoop_grows [OF assms(3)] have g: "extensionsUsed d = extensionsUsed (createExtensions doc)"
    by (simp add: grows_def)
  show "extensionsUsed d' =
           removeAll KHR_MATERIALS_PBR_SPECULAR_GLOSSINESS (extensionsUsed (createExtensions doc))"
    by (simp add: c dispose_specGlossExtension_def g)
  show "materials d' = map (\<lambda>m. m\<lparr>ext_specGloss := None\<rparr>) (materials d)"
    by (simp add: c dispose_specGlossExtension_def)
  show "specularProps d' = specularProps d" "iorProps d' = iorProps d"
    by (simp_all add: c dispose_specGlossExtension_def)
  show "length (textures d') = length (textures d)"
    using len by (simp add: c dispose_specGlossExtension_def)
qed

lemma second_run:
  assumes "metalRough A doc = Inr (d', l)"
  shows "KHR_MATERIALS_PBR_SPECULAR_GLOSSINESS \<notin> set (extensionsUsed d')"
proof (cases "KHR_MATERIALS_PBR_SPECULAR_GLOSSINESS \<in> set (extensionsUsed doc)")
  case True
  from metalRough_used [OF True assms] obtain d inp where loop: "materialLoop A doc = Inr (d, inp)"
    by blast
  show ?thesis by (simp add: final_fields(1) [OF True assms loop])
next
  case False
  with assms show ?thesis by (simp add: metalRough_def)
qed

lemma convertMaterial_skip:
  assumes "convertMaterial A j (d, inp) = Inr (d', inp')" "ext_specGloss (materials d ! k) = None"
  shows "materials d' ! k = materials d ! k"
proof (cases "j = k")
  case True
  with assms show ?thesis
    by (simp add: convertMaterial_def getExtension_specGloss_def)
next
  case False
  with assms(1) show ?thesis by (auto dest: convertMaterial_others)
qed

lemma convertMaterials_skip:
  "convertMaterials A ks (d, inp) = Inr (d', inp') \<Longrightarrow> ext_specGloss (materials d ! k) = None
     \<Longrightarrow> materials d' ! k = materials d ! k"
proof (induction ks arbitrary: d inp)
  case Nil
  then show ?case by simp
next
  case (Cons j ks)
  from Cons.prems(1) obtain d1 inp1 where
    s: "convertMaterial A j (d, inp) = Inr (d1, inp1)"
    and r: "convertMaterials A ks (d1, inp1) = Inr (d', inp')"
    by (auto split: sum.splits)
  from convertMaterial_skip [OF s Cons.prems(2)] have e: "materials d1 ! k = materials d ! k" .
  with Cons.IH [OF r] Cons.prems(2) show ?case by simp
qed

lemma convertMaterials_none:
  "\<forall>k \<in> set ks. ext_specGloss (materials d ! k) = None \<Longrightarrow>
     convertMaterials A ks (d, inp) = Inr (d, inp)"
  by (induction ks) (simp_all add: convertMaterial_def getExtension_specGloss_def)

lemma no_records_run:
  assumes "KHR_MATERIALS_PBR_SPECULAR_GLOSSINESS \<in> set (extensionsUsed doc)"
    and "\<forall>m \<in> set (materials doc). ext_specGloss m = None"
  shows "metalRough A doc =
     Inr (dispose_specGlossExtension (createExtensions doc), [Debug ''metalRough: Complete.''])"
proof -
  have "\<forall>k \<in> set [0..<length (materials doc)].
      ext_specGloss (materials (createExtensions doc) ! k) = None"
    using assms(2) by (simp add: createExtensions_fields)
  from convertMaterials_none [OF this]
  have "materialLoop A doc = Inr (createExtensions doc, [])"
    by (simp add: materialLoop_def)
  with assms(1) show ?thesis
    by (simp add: metalRough_def NAME_def)
qed

lemma unset_specGloss: "ext_specGloss m = None \<Longrightarrow> m\<lparr>ext_specGloss := None\<rparr> = m"
  by simp

lemma skipped_material:
  assumes "metalRough A doc = Inr (d', l)" "k < length (materials doc)"
    "ext_specGloss (materials doc ! k) = None"
  shows "length (materials d') = length (materials doc) \<and> materials d' ! k = materials doc ! k"
proof (cases "KHR_MATERIALS_PBR_SPECULAR_GLOSSINESS \<in> set (extensionsUsed doc)")
  case False
  with assms(1) show ?thesis by (simp add: metalRough_def)
next
  case True
  from metalRough_used [OF True assms(1)] obtain d inp where
    loop: "materialLoop A doc = Inr (d, inp)" by blast
  note f = final_fields [OF True assms(1) loop]
  from materialLoop_grows [OF loop] have len: "length (materials d) = length (materials doc)"
    by (simp add: grows_def createExtensions_fields)
  from loop have "convertMaterials A [0..<length (materials doc)] (createExtensions doc, []) = Inr (d, inp)"
    by (simp add: materialLoop_def)
  from convertMaterials_skip [OF this, of k] assms(3)
  have "materials d ! k = materials doc ! k" by (simp add: createExtensions_fields)
  with assms(2,3) len show ?thesis
    by (simp add: f)
qed

subsection \<open>One step of the loop\<close>

lemma upt_split: "k < n \<Longrightarrow> [0..<n] = [0..<k] @ k # [Suc k..<n]"
  by (metis less_imp_le_nat upt_add_eq_append upt_conv_Cons zero_le le_add_diff_inverse plus_nat.add_0)

lemma materialLoop_at:
  assumes loop: "materialLoop A doc = Inr (dL, inp)" and k: "k < length (materials doc)"
  shows "\<exists>d1 inp1 d2 inp2. convertMaterial A k (d1, inp1) = Inr (d2, inp2)
     \<and> grows (createExtensions doc) d1 \<and> materials d1 ! k = materials doc ! k
     \<and> grows d2 dL \<and> materials dL ! k = materials d2 ! k"
proof -
  let ?n = "length (materials doc)"
  from loop have "convertMaterials A ([0..<k] @ k # [Suc k..<?n]) (createExtensions doc, [])
      = Inr (dL, inp)"
    using upt_split [OF k] by (simp add: materialLoop_def)
  then obtain d1 inp1 d2 inp2 where
    a: "convertMaterials A [0..<k] (createExtensions doc, []) = Inr (d1, inp1)"
    and b: "convertMaterial A k (d1, inp1) = Inr (d2, inp2)"
    and c: "convertMaterials A [Suc k..<?n] (d2, inp2) = Inr (dL, inp)"
    by (auto simp: convertMaterials_append split: sum.splits)
  have "materials d1 ! k = materials doc ! k"
    using convertMaterials_others [OF a, of k] by (simp add: createExtensions_fields)
  moreover have "materials dL ! k = materials d2 ! k"
    using convertMaterials_others [OF c, of k] by simp
  ultimately show ?thesis
    using b grows_convertMaterials [OF a] grows_convertMaterials [OF c] by blast
qed

lemmas step_defs =
  convertMaterial_def createSpecular_def createIOR_def moveDiffuse_def setUpMetalRough_def
  moveSpecularGlossiness_def updMaterial_def updSpecular_def createTexture_def
  rewriteTexture_def setImage_def lookup_def

lemma step_factors:
  assumes "convertMaterial A k (d, inp) = Inr (d', inp')" "k < length (materials d)"
    "getExtension_specGloss d (materials d ! k) = Some sg"
  shows "baseColorFactor (materials d' ! k) = diffuseFactor sg"
    and "metallicFactor (materials d' ! k) = num_lit A 0"
    and "roughnessFactor (materials d' ! k) =
          (case specularGlossinessTexture sg of
             None \<Rightarrow> num_sub A (num_lit A 1) (glossinessFactor sg)
           | Some t \<Rightarrow> num_lit A 1)"
    and "ext_specGloss (materials d' ! k) = None"
  using assms
  by (auto simp: step_defs split: option.splits sum.splits)


lemma step_records:
  assumes "convertMaterial A k (d, inp) = Inr (d', inp')" "k < length (materials d)"
    "getExtension_specGloss d (materials d ! k) = Some sg"
  shows "getExtension_ior d' (materials d' ! k) = Some \<lparr> ior = num_lit A 1000 \<rparr>"
    and "\<exists>s. getExtension_specular d' (materials d' ! k) = Some s
           \<and> spec_specularFactor s = num_lit A 1
           \<and> spec_specularColorFactor s = specularFactor sg"
  using assms
  by (auto simp: step_defs getExtension_ior_def getExtension_specular_def nth_append
      split: option.splits sum.splits)

lemma step_diffuse:
  assumes "convertMaterial A k (d, inp) = Inr (d', inp')" "k < length (materials d)"
    "getExtension_specGloss d (materials d ! k) = Some sg" "diffuseTexture sg = Some dt"
  shows "baseColorTexture (materials d' ! k) = Some dt"
    and "baseColorTextureInfo (materials d' ! k) = diffuseTextureInfo sg"
    and "baseColorTextureSampler (materials d' ! k) = diffuseTextureSampler sg"
  using assms
  by (auto simp: step_defs split: option.splits sum.splits)

lemma step_textures:
  assumes "convertMaterial A k (d, inp) = Inr (d', inp')" "k < length (materials d)"
    "getExtension_specGloss d (materials d ! k) = Some sg"
    "specularGlossinessTexture sg = Some sgt"
  shows "\<exists>px s. getImage d sgt = Some px
     \<and> getExtension_specular d' (materials d' ! k) = Some s
     \<and> specularTexture s = Some (length (textures d))
     \<and> specularTextureInfo s = specularGlossinessTextureInfo sg
     \<and> specularTextureSampler s = specularGlossinessTextureSampler sg
     \<and> metallicRoughnessTexture (materials d' ! k) = Some (Suc (length (textures d)))
     \<and> metallicRoughnessTextureInfo (materials d' ! k) = specularGlossinessTextureInfo sg
     \<and> metallicRoughnessTextureSampler (materials d' ! k) = specularGlossinessTextureSampler sg
     \<and> getImage d' (length (textures d)) = Some (rewritePixels removeGlossiness px)
     \<and> getImage d' (Suc (length (textures d)))
          = Some (rewritePixels (invertGlossiness A (glossinessFactor sg)) px)
     \<and> getImage d' sgt = Some px"
  using assms
  by (auto simp: step_defs getExtension_specular_def getImage_def nth_append
      split: option.splits sum.splits if_splits)


subsection \<open>Pixel rewriting\<close>

lemma row_loop:
  assumes "pointwise fn F"
  shows "foldl (\<lambda>q j. fn q i j) p [0..<w] =
     p\<lparr>chan := (\<lambda>(i', j', c). if i' = i \<and> j' < w then F (\<lambda>c'. chan p (i, j', c')) c
                                else chan p (i', j', c))\<rparr>"
proof (induction w)
  case 0
  show ?case by simp
next
  case (Suc w)
  have "fn q i w = q\<lparr>chan := (\<lambda>(i', j', c). if i' = i \<and> j' = w then F (\<lambda>c'. chan q (i, w, c')) c
                                 else chan q (i', j', c))\<rparr>" for q
    using assms by (simp add: pointwise_def)
  with Suc show ?case
    by (auto simp: fun_eq_iff less_Suc_eq)
qed

lemma rewritePixels_pointwise:
  assumes "pointwise fn F"
  shows "rewritePixels fn px =
     px\<lparr>chan := (\<lambda>(i, j, c). if i < shape0 px \<and> j < shape1 px
                               then F (\<lambda>c'. chan px (i, j, c')) c else chan px (i, j, c))\<rparr>"
proof -
  have "foldl (\<lambda>p i. foldl (\<lambda>q j. fn q i j) p [0..<w]) px [0..<h] =
     px\<lparr>chan := (\<lambda>(i, j, c). if i < h \<and> j < w
                               then F (\<lambda>c'. chan px (i, j, c')) c else chan px (i, j, c))\<rparr>" for h w
  proof (induction h)
    case 0
    show ?case by simp
  next
    case (Suc h)
    let ?G = "\<lambda>h. (\<lambda>(i, j, c). if i < h \<and> j < w
                               then F (\<lambda>c'. chan px (i, j, c')) c else chan px (i, j, c))"
    let ?q = "px\<lparr>chan := ?G h\<rparr>"
    have e: "(\<lambda>(i', j', c). if i' = h \<and> j' < w then F (\<lambda>c'. chan ?q (h, j', c')) c
                else chan ?q (i', j', c)) = ?G (Suc h)"
      by (auto simp: fun_eq_iff less_Suc_eq)
    have "foldl (\<lambda>p i. foldl (\<lambda>q j. fn q i j) p [0..<w]) px [0..<Suc h]
        = foldl (\<lambda>q j. fn q h j) ?q [0..<w]"
      using Suc by simp
    also have "\<dots> = ?q\<lparr>chan := (\<lambda>(i', j', c). if i' = h \<and> j' < w
                then F (\<lambda>c'. chan ?q (h, j', c')) c else chan ?q (i', j', c))\<rparr>"
      by (rule row_loop [OF assms])
    also have "\<dots> = px\<lparr>chan := ?G (Suc h)\<rparr>"
      unfolding e by simp
    finally show ?case .
  qed
  then show ?thesis by (simp add: rewritePixels_def)
qed

lemma pointwise_removeGlossiness:
  "pointwise removeGlossiness (\<lambda>px c. if c = 3 then 255 else px c)"
  by (auto simp: pointwise_def removeGlossiness_def pixels_set_def fun_eq_iff)

lemma pointwise_invertGlossiness:
  "pointwise (invertGlossiness A g)
     (\<lambda>px c. if c = 0 then 0
        else if c = 1 then num_to_uint8 A (num_sub A (num_lit A 255)
               (num_round A (num_mul A (num_lit A (uint (px 3))) g)))
        else if c = 2 then 0 else if c = 3 then 255 else px c)"
  by (auto simp: pointwise_def invertGlossiness_def pixels_set_def pixels_get_def fun_eq_iff Let_def)


subsection \<open>A material at the end of the run\<close>

lemma extends_lookup: "extends xs ys \<Longrightarrow> lookup xs p = Some r \<Longrightarrow> lookup ys p = Some r"
  by (auto simp: extends_def lookup_def split: if_splits)

lemma extends_getImage:
  assumes "extends (textures d) (textures d')" "getImage d t = Some px"
  shows "getImage d' t = Some px"
  using assms by (auto simp: extends_def getImage_def split: if_splits option.splits)

lemma run_at:
  assumes used: "KHR_MATERIALS_PBR_SPECULAR_GLOSSINESS \<in> set (extensionsUsed doc)"
    and run: "metalRough A doc = Inr (d', l)"
    and k: "k < length (materials doc)"
  shows "\<exists>d1 inp1 d2 inp2 dL inp.
       convertMaterial A k (d1, inp1) = Inr (d2, inp2)
     \<and> k < length (materials d1)
     \<and> getExtension_specGloss d1 (materials d1 ! k) = getExtension_specGloss doc (materials doc ! k)
     \<and> extends (textures doc) (textures d1)
     \<and> grows d2 dL
     \<and> materials dL ! k = materials d2 ! k
     \<and> k < length (materials dL)
     \<and> d' = cleanUp inp (dispose_specGlossExtension dL)
     \<and> materials d' ! k = (materials d2 ! k)\<lparr>ext_specGloss := None\<rparr>
     \<and> specularProps d' = specularProps dL \<and> iorProps d' = iorProps dL"
proof -
  from metalRough_used [OF used run] obtain dL inp where
    loop: "materialLoop A doc = Inr (dL, inp)"
    and d': "d' = cleanUp inp (dispose_specGlossExtension dL)" by blast
  note f = final_fields [OF used run loop]
  from materialLoop_at [OF loop k] obtain d1 inp1 d2 inp2 where
    s: "convertMaterial A k (d1, inp1) = Inr (d2, inp2)"
    and g1: "grows (createExtensions doc) d1" and m1: "materials d1 ! k = materials doc ! k"
    and g2: "grows d2 dL" and m2: "materials dL ! k = materials d2 ! k"
    by blast
  from g1 have len1: "length (materials d1) = length (materials doc)"
    and sg1: "specGlossProps d1 = specGlossProps doc"
    and t1: "extends (textures doc) (textures d1)"
    by (simp_all add: grows_def createExtensions_fields)
  from materialLoop_grows [OF loop] have lenL: "length (materials dL) = length (materials doc)"
    by (simp add: grows_def createExtensions_fields)
  have "getExtension_specGloss d1 (materials d1 ! k) = getExtension_specGloss doc (materials doc ! k)"
    by (simp add: getExtension_specGloss_def m1 sg1 split: option.splits)
  moreover have "materials d' ! k = (materials d2 ! k)\<lparr>ext_specGloss := None\<rparr>"
    using k lenL by (simp add: f m2)
  moreover have "k < length (materials d1)" "k < length (materials dL)"
    using k len1 lenL by simp_all
  ultimately show ?thesis
    using s t1 g2 m2 d' f(3,4) by blast
qed

lemma material_parent:
  assumes "k < length (materials d)"
    and "baseColorTexture (materials d ! k) = Some t \<or> metallicRoughnessTexture (materials d ! k) = Some t"
  shows "length (listParents d t) \<noteq> 1"
proof
  assume "length (listParents d t) = 1"
  from one_parent(2) [OF this] assms show False
    by (auto simp: materialParents_Nil)
qed

lemma specular_parent:
  assumes "lookup (specularProps d) p = Some s" "specularTexture s = Some t"
  shows "length (listParents d t) \<noteq> 1"
proof
  assume "length (listParents d t) = 1"
  from one_parent(4) [OF this] assms show False
    by (auto simp: specularParents_Nil lookup_def split: if_splits)
qed

lemma cleanUp_getImage:
  assumes "length (listParents d t) \<noteq> 1"
  shows "getImage (cleanUp inp d) t = getImage d t \<and> live (cleanUp inp d) t = live d t"
proof -
  obtain txs where c: "cleanUp inp d = d\<lparr>textures := txs\<rparr>" and len: "length txs = length (textures d)"
    using cleanUp_fields by blast
  from c len have len': "length (textures (cleanUp inp d)) = length (textures d)"
    by simp
  show ?thesis
  proof (cases "t < length (textures d)")
    case True
    from cleanUp_textures [OF True, of inp] assms
    have "textures (cleanUp inp d) ! t = textures d ! t" by simp
    with True len' show ?thesis
      by (simp add: getImage_def live_def)
  next
    case False
    with len' show ?thesis
      by (simp add: getImage_def live_def)
  qed
qed

lemma extends_live:
  assumes "extends (textures d) (textures d')" "live d t"
  shows "live d' t" "getImage d' t = getImage d t"
  using assms by (auto simp: extends_def live_def getImage_def)

lemma dispose_specGlossExtension_fields:
  "textures (dispose_specGlossExtension d) = textures d"
  "specularProps (dispose_specGlossExtension d) = specularProps d"
  "length (materials (dispose_specGlossExtension d)) = length (materials d)"
  "k < length (materials d) \<Longrightarrow>
     materials (dispose_specGlossExtension d) ! k = (materials d ! k)\<lparr>ext_specGloss := None\<rparr>"
  "getImage (dispose_specGlossExtension d) t = getImage d t"
  "live (dispose_specGlossExtension d) t = live d t"
  by (simp_all add: dispose_specGlossExtension_def getImage_def live_def)

lemma getImage_live: "getImage d t = Some px \<Longrightarrow> live d t"
  by (auto simp: getImage_def live_def split: if_splits option.splits)

lemma removeGlossiness_pixels:
  "shape0 (rewritePixels removeGlossiness px) = shape0 px"
  "shape1 (rewritePixels removeGlossiness px) = shape1 px"
  "i < shape0 px \<Longrightarrow> j < shape1 px \<Longrightarrow>
     chan (rewritePixels removeGlossiness px) (i, j, c) = (if c = 3 then 255 else chan px (i, j, c))"
  by (simp_all add: rewritePixels_pointwise [OF pointwise_removeGlossiness])

lemma invertGlossiness_pixels:
  "shape0 (rewritePixels (invertGlossiness A g) px) = shape0 px"
  "shape1 (rewritePixels (invertGlossiness A g) px) = shape1 px"
  "i < shape0 px \<Longrightarrow> j < shape1 px \<Longrightarrow>
     chan (rewritePixels (invertGlossiness A g) px) (i, j, c) =
       (if c = 0 then 0
        else if c = 1 then num_to_uint8 A (num_sub A (num_lit A 255)
               (num_round A (num_mul A (num_lit A (uint (chan px (i, j, 3)))) g)))
        else if c = 2 then 0 else if c = 3 then 255 else chan px (i, j, c))"
  by (simp_all add: rewritePixels_pointwise [OF pointwise_invertGlossiness])

subsection \<open>The set of stashed textures\<close>

lemma set_add_props:
  "distinct xs \<Longrightarrow> distinct (set_add x xs)" "set (set_add x xs) = insert x (set xs)"
  by (auto simp: set_add_def)

lemma foldl_set_add:
  "distinct inp \<Longrightarrow> distinct (foldl (\<lambda>s x. set_add x s) inp xs)
     \<and> set (foldl (\<lambda>s x. set_add x s) inp xs) = set inp \<union> set xs"
  by (induction xs arbitrary: inp) (auto simp: set_add_props)

lemma convertMaterial_inp:
  assumes "convertMaterial A k (d, inp) = Inr (d', inp')" "distinct inp"
  shows "distinct inp' \<and> set inp' = set inp \<union> set (stashed d k)"
proof (cases "getExtension_specGloss d (materials d ! k)")
  case None
  with assms show ?thesis by (simp add: convertMaterial_def stashed_def)
next
  case (Some sg)
  with assms(1) have "inp' = foldl (\<lambda>s x. set_add x s) inp (stashed d k)"
    by (auto simp: convertMaterial_def createSpecular_def createIOR_def split: sum.splits)
  with foldl_set_add [OF assms(2)] show ?thesis by simp
qed

lemma stashed_cong:
  "materials d' ! k = materials d ! k \<Longrightarrow> specGlossProps d' = specGlossProps d
     \<Longrightarrow> stashed d' k = stashed d k"
  by (simp add: stashed_def getExtension_specGloss_def split: option.splits)

lemma convertMaterials_inp:
  "convertMaterials A ks (d, inp) = Inr (d', inp') \<Longrightarrow> distinct ks \<Longrightarrow> distinct inp \<Longrightarrow>
     distinct inp' \<and> set inp' = set inp \<union> (\<Union>k\<in>set ks. set (stashed d k))"
proof (induction ks arbitrary: d inp)
  case Nil
  then show ?case by simp
next
  case (Cons j ks)
  from Cons.prems(1) obtain d1 inp1 where
    s: "convertMaterial A j (d, inp) = Inr (d1, inp1)"
    and r: "convertMaterials A ks (d1, inp1) = Inr (d', inp')"
    by (auto split: sum.splits)
  from convertMaterial_inp [OF s Cons.prems(3)] have
    d1: "distinct inp1" and s1: "set inp1 = set inp \<union> set (stashed d j)" by simp_all
  from Cons.prems(2) have dk: "distinct ks" and nj: "j \<notin> set ks" by simp_all
  have "stashed d1 k = stashed d k" if "k \<in> set ks" for k
  proof -
    from that nj have "k \<noteq> j" by auto
    from convertMaterial_others [OF s this] grows_convertMaterial [OF s]
    show ?thesis by (intro stashed_cong) (simp_all add: grows_def)
  qed
  with Cons.IH [OF r dk d1] s1 show ?case by auto
qed

subsection \<open>The roughness channel in exact arithmetic\<close>

lemma uint_byte: "0 \<le> (r::int) \<Longrightarrow> r < 256 \<Longrightarrow> uint (word_of_int r :: byte) = r"
  by (simp add: uint_word_of_int)

lemma roughness_in_range:
  fixes n :: int and g :: real
  assumes "0 \<le> n" "n \<le> 255" "0 \<le> g" "g \<le> 1"
  shows "0 \<le> 255 - \<lfloor>real_of_int n * g + 1 / 2\<rfloor>" "255 - \<lfloor>real_of_int n * g + 1 / 2\<rfloor> < 256"
proof -
  let ?x = "real_of_int n * g"
  have n0: "0 \<le> real_of_int n" and n1: "real_of_int n \<le> 255"
    using assms(1,2) by simp_all
  have x0: "0 \<le> ?x" using n0 assms(3) by simp
  have "?x \<le> real_of_int n * 1"
    using n0 assms(4) by (intro mult_left_mono) simp_all
  with n1 have x1: "?x \<le> 255" by simp
  have f0: "0 \<le> \<lfloor>?x + 1 / 2\<rfloor>" using x0 by simp
  have "?x + 1 / 2 < 256" using x1 by simp
  then have "\<lfloor>?x + 1 / 2\<rfloor> < 256" by (simp add: floor_less_iff)
  with f0 show "0 \<le> 255 - \<lfloor>?x + 1 / 2\<rfloor>" "255 - \<lfloor>?x + 1 / 2\<rfloor> < 256" by linarith+
qed

lemma exact_roughness_int:
  fixes n :: int and g :: real
  assumes "0 \<le> n" "n \<le> 255" "0 \<le> g" "g \<le> 1"
  shows "uint (num_to_uint8 exact_arith (num_sub exact_arith (num_lit exact_arith 255)
           (num_round exact_arith (num_mul exact_arith (num_lit exact_arith n) g))))
         = 255 - \<lfloor>real_of_int n * g + 1 / 2\<rfloor>"
proof -
  let ?r = "255 - \<lfloor>real_of_int n * g + 1 / 2\<rfloor>"
  note r = roughness_in_range [OF assms]
  have e: "255 - real_of_int \<lfloor>real_of_int n * g + 1 / 2\<rfloor> = real_of_int ?r"
    by simp
  have "num_to_uint8 exact_arith (num_sub exact_arith (num_lit exact_arith 255)
           (num_round exact_arith (num_mul exact_arith (num_lit exact_arith n) g)))
       = word_of_int ?r"
    unfolding exact_arith_def arith.select_convs of_int_numeral e
    using r(1) by (simp only: of_int_0_le_iff floor_of_int if_True)
  moreover have "uint (word_of_int ?r :: byte) = ?r"
    using r by (rule uint_byte)
  ultimately show ?thesis by simp
qed

lemma exact_roughness_channel:
  fixes a :: byte and g :: real
  assumes "0 \<le> g" "g \<le> 1"
  shows "uint (num_to_uint8 exact_arith (num_sub exact_arith (num_lit exact_arith 255)
           (num_round exact_arith (num_mul exact_arith (num_lit exact_arith (uint a)) g))))
         = 255 - \<lfloor>real_of_int (uint a) * g + 1 / 2\<rfloor>"
proof -
  have "uint a < 2 ^ 8" using uint_bounded [of a] by simp
  then have "uint a \<le> 255" by simp
  from exact_roughness_int [OF uint_ge_0 this assms] show ?thesis .
qed

subsection \<open>When the run returns\<close>

text \<open>
  The run fails only on a combined texture that cannot be decoded: where every such
  texture is decodable, it returns a document.
\<close>

lemma convertMaterial_returns:
  assumes "decodable d k"
  shows "\<exists>d' inp'. convertMaterial A k (d, inp) = Inr (d', inp')"
  using assms
  by (auto simp: decodable_def step_defs getImage_def nth_append
      split: option.splits sum.splits if_splits)

lemma decodable_step:
  assumes "convertMaterial A j (d, inp) = Inr (d', inp')" "k \<noteq> j" "decodable d k"
  shows "decodable d' k"
proof -
  from grows_convertMaterial [OF assms(1)] have sg: "specGlossProps d' = specGlossProps d"
    and t: "extends (textures d) (textures d')"
    by (simp_all add: grows_def)
  from convertMaterial_others [OF assms(1,2)] have m: "materials d' ! k = materials d ! k" .
  show ?thesis
    using assms(3) extends_getImage [OF t]
    by (auto simp: decodable_def getExtension_specGloss_def m sg split: option.splits)
qed

lemma convertMaterials_returns:
  "distinct ks \<Longrightarrow> \<forall>k \<in> set ks. decodable d k \<Longrightarrow>
     \<exists>d' inp'. convertMaterials A ks (d, inp) = Inr (d', inp')"
proof (induction ks arbitrary: d inp)
  case Nil
  show ?case by simp
next
  case (Cons j ks)
  from Cons.prems(2) have "decodable d j" by simp
  from convertMaterial_returns [OF this, of A inp] obtain d1 inp1 where
    s: "convertMaterial A j (d, inp) = Inr (d1, inp1)" by blast
  have "decodable d1 k" if "k \<in> set ks" for k
  proof -
    from that Cons.prems(1) have "k \<noteq> j" by auto
    moreover from that Cons.prems(2) have "decodable d k" by simp
    ultimately show ?thesis by (rule decodable_step [OF s])
  qed
  then have "\<forall>k \<in> set ks. decodable d1 k" by blast
  with Cons.IH [of d1 inp1] Cons.prems(1) s show ?case by simp
qed

lemma metalRough_returns:
  assumes "\<forall>k<length (materials doc). decodable doc k"
  shows "\<exists>d' l. metalRough A doc = Inr (d', l)"
proof (cases "KHR_MATERIALS_PBR_SPECULAR_GLOSSINESS \<in> set (extensionsUsed doc)")
  case False
  then show ?thesis by (simp add: metalRough_def)
next
  case True
  have "decodable (createExtensions doc) k = decodable doc k" for k
    by (simp add: decodable_def getExtension_specGloss_def getImage_def createExtensions_fields
        cong: option.case_cong)
  with assms
  have "\<forall>k \<in> set [0..<length (materials doc)]. decodable (createExtensions doc) k"
    by simp
  from convertMaterials_returns [OF _ this, of A "[]"] obtain d inp where
    "materialLoop A doc = Inr (d, inp)"
    by (auto simp: materialLoop_def)
  with True show ?thesis by (simp add: metalRough_def)
qed

subsection \<open>The runs on the example documents\<close>

lemmas example_defs =
  sg0_def mat0_def mat1_def sgT_def matT_def matU_def matT'_def specularT_def KHR_MATERIALS_PBR_SPECULAR_GLOSSINESS_def KHR_MATERIALS_IOR_def
  KHR_MATERIALS_SPECULAR_def NAME_def exact_arith_def complete_log_def not_found_log_def

lemmas run_defs =
  metalRough_def materialLoop_def createExtensions_def createExtension_def convertMaterial_def
  getExtension_specGloss_def lookup_def createSpecular_def createIOR_def moveDiffuse_def
  setUpMetalRough_def stashed_def moveSpecularGlossiness_def updMaterial_def updSpecular_def
  set_add_def
  dispose_specGlossExtension_def upt_conv_Cons

lemma doc0_run: "metalRough exact_arith doc0 = Inr (doc0', complete_log)"
  by (simp add: doc0_def doc0'_def example_defs run_defs)

lemma doc0_used: "KHR_MATERIALS_PBR_SPECULAR_GLOSSINESS \<in> set (extensionsUsed doc0)"
  by (simp add: doc0_def example_defs)

lemma doc_none_run: "metalRough exact_arith doc_none = Inr (doc_none', complete_log)"
  by (simp add: doc_none_def doc_none'_def example_defs run_defs)

lemmas cleanUp_defs =
  listParents_def live_def materialParents_def specGlossParents_def specularParents_def
  links_def dispose_texture_def clearSlot_def

lemma doc_tex_used: "KHR_MATERIALS_PBR_SPECULAR_GLOSSINESS \<in> set (extensionsUsed doc_tex)"
  by (simp add: doc_tex_def example_defs)

lemma doc_tex_loop: "materialLoop exact_arith doc_tex = Inr (doc_texL, inp_tex)"
  by (simp add: doc_tex_def doc_texL_def inp_tex_def example_defs run_defs createTexture_def
      rewriteTexture_def setImage_def getImage_def)

lemma doc_tex_dispose: "dispose_specGlossExtension doc_texL = doc_texB"
  by (simp add: doc_texL_def doc_texB_def dispose_specGlossExtension_def example_defs)

lemma doc_tex_cleanUp: "cleanUp inp_tex doc_texB = doc_tex'"
  by (simp add: doc_tex'_def doc_texB_def doc_texL_def inp_tex_def example_defs cleanUp_defs
      upt_conv_Cons fun_eq_iff)

lemma doc_tex_run: "metalRough exact_arith doc_tex = Inr (doc_tex', complete_log)"
  using doc_tex_used
  by (simp add: metalRough_def doc_tex_loop doc_tex_dispose doc_tex_cleanUp complete_log_def
      NAME_def)

section \<open>The claims\<close>

text \<open>
  C1. A material that carries a spec/gloss record with no combined specular+glossiness
  texture has, after the run: the roughness factor \<open>1 - glossinessFactor\<close>, a specular
  record whose colour factor is the specular factor of the spec/gloss record, the
  metallic factor 0, the base-colour factor equal to the diffuse factor, an IOR record
  with the value 1000, and the specular factor 1. The subtraction and the literals are
  those of the arithmetic \<open>A\<close> the run is given.
\<close>

theorem scalar_conversion:
  assumes "KHR_MATERIALS_PBR_SPECULAR_GLOSSINESS \<in> set (extensionsUsed doc)"
    and "metalRough A doc = Inr (d', l)"
    and "k < length (materials doc)"
    and "getExtension_specGloss doc (materials doc ! k) = Some sg"
    and "specularGlossinessTexture sg = None"
  shows "roughnessFactor (materials d' ! k) = num_sub A (num_lit A 1) (glossinessFactor sg)
     \<and> map_option spec_specularColorFactor (getExtension_specular d' (materials d' ! k))
         = Some (specularFactor sg)
     \<and> metallicFactor (materials d' ! k) = num_lit A 0
     \<and> baseColorFactor (materials d' ! k) = diffuseFactor sg
     \<and> getExtension_ior d' (materials d' ! k) = Some \<lparr> ior = num_lit A 1000 \<rparr>
     \<and> map_option spec_specularFactor (getExtension_specular d' (materials d' ! k))
         = Some (num_lit A 1)"
proof -
  from run_at [OF assms(1-3)] obtain d1 inp1 d2 inp2 dL where
    s: "convertMaterial A k (d1, inp1) = Inr (d2, inp2)"
    and k1: "k < length (materials d1)"
    and sg: "getExtension_specGloss d1 (materials d1 ! k) = Some sg"
    and g: "grows d2 dL"
    and m': "materials d' ! k = (materials d2 ! k)\<lparr>ext_specGloss := None\<rparr>"
    and sp: "specularProps d' = specularProps dL" and io: "iorProps d' = iorProps dL"
    using assms(4) by auto
  note fac = step_factors [OF s k1 sg]
  from step_records [OF s k1 sg] obtain r where
    i2: "getExtension_ior d2 (materials d2 ! k) = Some \<lparr> ior = num_lit A 1000 \<rparr>"
    and r2: "getExtension_specular d2 (materials d2 ! k) = Some r"
    and rf: "spec_specularFactor r = num_lit A 1"
    and rc: "spec_specularColorFactor r = specularFactor sg"
    by blast
  from g have es: "extends (specularProps d2) (specularProps d')"
    and ei: "extends (iorProps d2) (iorProps d')"
    by (simp_all add: grows_def sp io)
  have i': "getExtension_ior d' (materials d' ! k) = Some \<lparr> ior = num_lit A 1000 \<rparr>"
    using i2 extends_lookup [OF ei]
    by (auto simp: getExtension_ior_def m' split: option.splits)
  have r': "getExtension_specular d' (materials d' ! k) = Some r"
    using r2 extends_lookup [OF es]
    by (auto simp: getExtension_specular_def m' split: option.splits)
  show ?thesis
    using fac assms(5) i' r' rf rc by (simp add: m')
qed

theorem scalar_conversion_witness:
  "KHR_MATERIALS_PBR_SPECULAR_GLOSSINESS \<in> set (extensionsUsed doc0)
   \<and> metalRough exact_arith doc0 = Inr (doc0', complete_log)
   \<and> 0 < length (materials doc0)
   \<and> getExtension_specGloss doc0 (materials doc0 ! 0) = Some sg0
   \<and> specularGlossinessTexture sg0 = None
   \<and> roughnessFactor (materials doc0' ! 0) = 1 - 4 / 5
   \<and> map_option spec_specularColorFactor (getExtension_specular doc0' (materials doc0' ! 0))
       = Some [1 / 2, 1 / 2, 1 / 2]
   \<and> metallicFactor (materials doc0' ! 0) = 0
   \<and> baseColorFactor (materials doc0' ! 0) = [1, 0, 0, 1]
   \<and> getExtension_ior doc0' (materials doc0' ! 0) = Some \<lparr> ior = 1000 \<rparr>
   \<and> map_option spec_specularFactor (getExtension_specular doc0' (materials doc0' ! 0))
       = Some 1"
proof -
  have k: "0 < length (materials doc0)"
    and sg: "getExtension_specGloss doc0 (materials doc0 ! 0) = Some sg0"
    and nt: "specularGlossinessTexture sg0 = None"
    by (simp_all add: doc0_def mat0_def sg0_def getExtension_specGloss_def lookup_def)
  from scalar_conversion [OF doc0_used doc0_run k sg nt] doc0_used doc0_run k sg nt
  show ?thesis
    by (simp add: exact_arith_def sg0_def)
qed

text \<open>
  C2. For a material whose spec/gloss record binds a combined specular+glossiness
  texture with image \<open>px\<close>, the run creates two textures that were not in the document:
  the texture of the material's specular record and the metallic-roughness texture of
  the material. Their images have the shape of \<open>px\<close>, and for every pixel of \<open>px\<close>: in
  the specular texture channel 3 is 255 and channels 0 to 2 are those of \<open>px\<close>; in the
  metallic-roughness texture channel 0 is 0, channel 1 is the 8-bit store of
  \<open>255 - Math.round (channel 3 of px * glossinessFactor)\<close>, channel 2 is 0 and channel 3
  is 255. Both bindings take the texture-coordinate index and the sampler settings of
  the combined binding, and the combined texture keeps its image as long as it is in the
  document. The last conjunct reads the stored byte in exact arithmetic: for a
  glossiness factor between 0 and 1 its value is \<open>255 - round (channel 3 * factor)\<close>.
\<close>

theorem combined_texture_recoding:
  assumes "KHR_MATERIALS_PBR_SPECULAR_GLOSSINESS \<in> set (extensionsUsed doc)"
    and "metalRough A doc = Inr (d', l)"
    and "k < length (materials doc)"
    and "getExtension_specGloss doc (materials doc ! k) = Some sg"
    and "specularGlossinessTexture sg = Some sgt"
    and "getImage doc sgt = Some px"
  shows "\<exists>s ts tm ps pm.
       getExtension_specular d' (materials d' ! k) = Some s \<and> specularTexture s = Some ts
     \<and> metallicRoughnessTexture (materials d' ! k) = Some tm
     \<and> ts \<noteq> tm \<and> \<not> live doc ts \<and> \<not> live doc tm
     \<and> getImage d' ts = Some ps \<and> getImage d' tm = Some pm
     \<and> shape0 ps = shape0 px \<and> shape1 ps = shape1 px
     \<and> shape0 pm = shape0 px \<and> shape1 pm = shape1 px
     \<and> (\<forall>i j. i < shape0 px \<and> j < shape1 px \<longrightarrow>
           chan ps (i, j, 3) = 255
         \<and> (\<forall>c<3. chan ps (i, j, c) = chan px (i, j, c))
         \<and> chan pm (i, j, 0) = 0
         \<and> chan pm (i, j, 1) = num_to_uint8 A (num_sub A (num_lit A 255)
               (num_round A (num_mul A (num_lit A (uint (chan px (i, j, 3))))
                  (glossinessFactor sg))))
         \<and> chan pm (i, j, 2) = 0
         \<and> chan pm (i, j, 3) = 255)
     \<and> specularTextureInfo s = specularGlossinessTextureInfo sg
     \<and> specularTextureSampler s = specularGlossinessTextureSampler sg
     \<and> metallicRoughnessTextureInfo (materials d' ! k) = specularGlossinessTextureInfo sg
     \<and> metallicRoughnessTextureSampler (materials d' ! k) = specularGlossinessTextureSampler sg
     \<and> getImage d' sgt = (if live d' sgt then Some px else None)
     \<and> (\<forall>(a::byte) g. 0 \<le> g \<and> g \<le> 1 \<longrightarrow>
           uint (num_to_uint8 exact_arith (num_sub exact_arith (num_lit exact_arith 255)
             (num_round exact_arith (num_mul exact_arith (num_lit exact_arith (uint a)) g))))
           = 255 - \<lfloor>real_of_int (uint a) * g + 1 / 2\<rfloor>)"
proof -
  from run_at [OF assms(1-3)] obtain d1 inp1 d2 inp2 dL inp where
    s: "convertMaterial A k (d1, inp1) = Inr (d2, inp2)"
    and k1: "k < length (materials d1)"
    and sg: "getExtension_specGloss d1 (materials d1 ! k) = Some sg"
    and t1: "extends (textures doc) (textures d1)"
    and g: "grows d2 dL" and mL: "materials dL ! k = materials d2 ! k"
    and kL: "k < length (materials dL)"
    and d': "d' = cleanUp inp (dispose_specGlossExtension dL)"
    and m': "materials d' ! k = (materials d2 ! k)\<lparr>ext_specGloss := None\<rparr>"
    and sp: "specularProps d' = specularProps dL"
    using assms(4) by auto
  let ?ts = "length (textures d1)" and ?tm = "Suc (length (textures d1))"
  let ?ps = "rewritePixels removeGlossiness px"
  let ?pm = "rewritePixels (invertGlossiness A (glossinessFactor sg)) px"
  let ?dB = "dispose_specGlossExtension dL"
  have px1: "getImage d1 sgt = Some px"
    using extends_getImage [OF t1 assms(6)] .
  from step_textures [OF s k1 sg assms(5)] px1 obtain r where
    r2: "getExtension_specular d2 (materials d2 ! k) = Some r"
    and rt: "specularTexture r = Some ?ts"
    and ri: "specularTextureInfo r = specularGlossinessTextureInfo sg"
    and rs: "specularTextureSampler r = specularGlossinessTextureSampler sg"
    and mt: "metallicRoughnessTexture (materials d2 ! k) = Some ?tm"
    and mi: "metallicRoughnessTextureInfo (materials d2 ! k) = specularGlossinessTextureInfo sg"
    and ms: "metallicRoughnessTextureSampler (materials d2 ! k) = specularGlossinessTextureSampler sg"
    and is2: "getImage d2 ?ts = Some ?ps" and im2: "getImage d2 ?tm = Some ?pm"
    and ig2: "getImage d2 sgt = Some px"
    by auto
  from r2 obtain p where p: "ext_specular (materials d2 ! k) = Some p"
    and lp: "lookup (specularProps d2) p = Some r"
    by (auto simp: getExtension_specular_def split: option.splits)
  from g have es: "extends (specularProps d2) (specularProps dL)"
    and et: "extends (textures d2) (textures dL)"
    by (simp_all add: grows_def)
  have lpL: "lookup (specularProps dL) p = Some r"
    using extends_lookup [OF es lp] .
  have r': "getExtension_specular d' (materials d' ! k) = Some r"
    using lpL p by (simp add: getExtension_specular_def m' sp)
  have cs: "length (listParents ?dB ?ts) \<noteq> 1"
    using lpL rt by (intro specular_parent [of _ p r]) (simp_all add: dispose_specGlossExtension_fields)
  have cm: "length (listParents ?dB ?tm) \<noteq> 1"
    using kL by (intro material_parent [of k]) (simp_all add: dispose_specGlossExtension_fields mL mt)
  have is': "getImage d' ?ts = Some ?ps"
    using cleanUp_getImage [OF cs, of inp] extends_getImage [OF et is2]
    by (simp add: d' dispose_specGlossExtension_fields)
  have im': "getImage d' ?tm = Some ?pm"
    using cleanUp_getImage [OF cm, of inp] extends_getImage [OF et im2]
    by (simp add: d' dispose_specGlossExtension_fields)
  have new: "\<not> live doc ?ts" "\<not> live doc ?tm"
    using t1 by (auto simp: live_def extends_def)
  have src: "getImage d' sgt = (if live d' sgt then Some px else None)"
  proof -
    obtain txs where c: "d' = ?dB\<lparr>textures := txs\<rparr>" and len: "length txs = length (textures ?dB)"
      using cleanUp_fields [of inp ?dB] d' by auto
    from extends_getImage [OF et ig2] have gL: "getImage ?dB sgt = Some px"
      by (simp add: dispose_specGlossExtension_fields)
    then have lt: "sgt < length (textures ?dB)"
      by (auto simp: getImage_def split: if_splits)
    from cleanUp_textures [OF lt, of inp] d'
    have "textures d' ! sgt = None \<or> textures d' ! sgt = textures ?dB ! sgt"
      by (auto split: if_splits)
    with gL lt c len show ?thesis
      by (auto simp: getImage_def live_def)
  qed
  have pix: "\<forall>i j. i < shape0 px \<and> j < shape1 px \<longrightarrow>
           chan ?ps (i, j, 3) = 255
         \<and> (\<forall>c<3. chan ?ps (i, j, c) = chan px (i, j, c))
         \<and> chan ?pm (i, j, 0) = 0
         \<and> chan ?pm (i, j, 1) = num_to_uint8 A (num_sub A (num_lit A 255)
               (num_round A (num_mul A (num_lit A (uint (chan px (i, j, 3))))
                  (glossinessFactor sg))))
         \<and> chan ?pm (i, j, 2) = 0
         \<and> chan ?pm (i, j, 3) = 255"
    by (simp add: removeGlossiness_pixels invertGlossiness_pixels)
  show ?thesis
    apply (rule exI [of _ r], rule exI [of _ ?ts], rule exI [of _ ?tm],
        rule exI [of _ ?ps], rule exI [of _ ?pm])
    using r' rt mt new is' im' pix ri rs mi ms src exact_roughness_channel
    by (simp add: m' removeGlossiness_pixels invertGlossiness_pixels)
qed

theorem combined_texture_recoding_witness:
  "KHR_MATERIALS_PBR_SPECULAR_GLOSSINESS \<in> set (extensionsUsed doc_tex)
   \<and> metalRough exact_arith doc_tex = Inr (doc_tex', complete_log)
   \<and> 0 < length (materials doc_tex)
   \<and> getExtension_specGloss doc_tex (materials doc_tex ! 0) = Some sgT
   \<and> specularGlossinessTexture sgT = Some 0
   \<and> getImage doc_tex 0 = Some px0
   \<and> (0::real) \<le> 4 / 5 \<and> (4::real) / 5 \<le> 1
   \<and> getExtension_specular doc_tex' (materials doc_tex' ! 0) = Some specularT
   \<and> specularTexture specularT = Some 4
   \<and> metallicRoughnessTexture (materials doc_tex' ! 0) = Some 5
   \<and> map_option (\<lambda>p. map (\<lambda>c. chan p (0, 1, c)) [0, 1, 2, 3]) (getImage doc_tex' 4)
       = Some [7, 7, 7, 255]
   \<and> map_option (\<lambda>p. map (\<lambda>c. chan p (0, 1, c)) [0, 1, 2, 3]) (getImage doc_tex' 5)
       = Some [0, 153, 0, 255]
   \<and> uint (num_to_uint8 exact_arith (num_sub exact_arith (num_lit exact_arith 255)
        (num_round exact_arith (num_mul exact_arith (num_lit exact_arith (uint (128::byte)))
           (4 / 5))))) = 153"
proof -
  have k: "0 < length (materials doc_tex)"
    and sg: "getExtension_specGloss doc_tex (materials doc_tex ! 0) = Some sgT"
    and t: "specularGlossinessTexture sgT = Some 0"
    and im: "getImage doc_tex 0 = Some px0"
    by (simp_all add: doc_tex_def matT_def mat0_def sgT_def getExtension_specGloss_def lookup_def
        getImage_def)
  from combined_texture_recoding [OF doc_tex_used doc_tex_run k sg t im]
  obtain s ts tm ps pm where
    s: "getExtension_specular doc_tex' (materials doc_tex' ! 0) = Some s"
      "specularTexture s = Some ts"
      "metallicRoughnessTexture (materials doc_tex' ! 0) = Some tm"
      "getImage doc_tex' ts = Some ps" "getImage doc_tex' tm = Some pm"
    and pix: "\<forall>i j. i < shape0 px0 \<and> j < shape1 px0 \<longrightarrow>
           chan ps (i, j, 3) = 255
         \<and> (\<forall>c<3. chan ps (i, j, c) = chan px0 (i, j, c))
         \<and> chan pm (i, j, 0) = 0
         \<and> chan pm (i, j, 1) = num_to_uint8 exact_arith (num_sub exact_arith
               (num_lit exact_arith 255) (num_round exact_arith (num_mul exact_arith
                  (num_lit exact_arith (uint (chan px0 (i, j, 3)))) (glossinessFactor sgT))))
         \<and> chan pm (i, j, 2) = 0
         \<and> chan pm (i, j, 3) = 255"
    and ex: "\<forall>(a::byte) g. 0 \<le> g \<and> g \<le> 1 \<longrightarrow>
           uint (num_to_uint8 exact_arith (num_sub exact_arith (num_lit exact_arith 255)
             (num_round exact_arith (num_mul exact_arith (num_lit exact_arith (uint a)) g))))
           = 255 - \<lfloor>real_of_int (uint a) * g + 1 / 2\<rfloor>"
    by blast
  have rec: "getExtension_specular doc_tex' (materials doc_tex' ! 0) = Some specularT"
    and mr: "metallicRoughnessTexture (materials doc_tex' ! 0) = Some 5"
    by (simp_all add: doc_tex'_def doc_texB_def doc_texL_def matT'_def
        getExtension_specular_def lookup_def)
  from s(1) rec have "s = specularT" by simp
  with s(2) have ts: "ts = 4" by (simp add: specularT_def)
  from s(3) mr have tm: "tm = 5" by simp
  have in_px: "0 < shape0 px0 \<and> 1 < shape1 px0" by (simp add: px0_def)
  from pix in_px have p01: "chan ps (0, 1, 3) = 255"
    "\<forall>c<3. chan ps (0, 1, c) = chan px0 (0, 1, c)"
    "chan pm (0, 1, 0) = 0"
    "chan pm (0, 1, 1) = num_to_uint8 exact_arith (num_sub exact_arith
               (num_lit exact_arith 255) (num_round exact_arith (num_mul exact_arith
                  (num_lit exact_arith (uint (chan px0 (0, 1, 3)))) (glossinessFactor sgT))))"
    "chan pm (0, 1, 2) = 0" "chan pm (0, 1, 3) = 255"
    by blast+
  from p01(2) have p012: "chan ps (0, 1, 0) = 7" "chan ps (0, 1, 1) = 7" "chan ps (0, 1, 2) = 7"
    by (simp_all add: px0_def)
  have v: "num_to_uint8 exact_arith (num_sub exact_arith
               (num_lit exact_arith 255) (num_round exact_arith (num_mul exact_arith
                  (num_lit exact_arith (uint (128::byte))) (4 / 5)))) = 153"
    by (simp add: exact_arith_def)
  from ex [rule_format, where a = "128::byte" and g = "4 / 5"]
  have u: "uint (num_to_uint8 exact_arith (num_sub exact_arith (num_lit exact_arith 255)
        (num_round exact_arith (num_mul exact_arith (num_lit exact_arith (uint (128::byte)))
           (4 / 5))))) = 153"
    by simp
  have c3: "chan px0 (0, 1, 3) = 128" by (simp add: px0_def)
  from p01(4) have p1: "chan pm (0, 1, 1) = 153"
    by (simp only: c3 sgT_def specGloss.select_convs v)
  show ?thesis
    using doc_tex_used doc_tex_run k sg t im rec mr s(4,5) p01(1,3,5,6) p012 p1 u
    by (simp add: ts tm specularT_def)
qed

text \<open>
  C3. After a run on a document that declared the spec/gloss extension as used, no
  material has a spec/gloss record attached and the document no longer declares the
  extension. Nothing is asked of the materials, so this covers the document in which no
  material carried a record; there the run always returns, and what it returns is the
  document with the three extensions created and the spec/gloss extension disposed.
\<close>

theorem no_specGloss_after_run:
  assumes "KHR_MATERIALS_PBR_SPECULAR_GLOSSINESS \<in> set (extensionsUsed doc)"
  shows "(metalRough A doc = Inr (d', l) \<longrightarrow>
            (\<forall>m \<in> set (materials d'). ext_specGloss m = None \<and> getExtension_specGloss d' m = None)
          \<and> KHR_MATERIALS_PBR_SPECULAR_GLOSSINESS \<notin> set (extensionsUsed d'))
     \<and> ((\<forall>m \<in> set (materials doc). ext_specGloss m = None) \<longrightarrow>
            metalRough A doc =
              Inr (dispose_specGlossExtension (createExtensions doc),
                   [Debug ''metalRough: Complete.'']))"
proof -
  have "(\<forall>m \<in> set (materials d'). ext_specGloss m = None \<and> getExtension_specGloss d' m = None)
      \<and> KHR_MATERIALS_PBR_SPECULAR_GLOSSINESS \<notin> set (extensionsUsed d')"
    if run: "metalRough A doc = Inr (d', l)"
  proof -
    from metalRough_used [OF assms run] obtain d inp where
      loop: "materialLoop A doc = Inr (d, inp)" by blast
    note f = final_fields [OF assms run loop]
    show ?thesis
      by (auto simp: f getExtension_specGloss_def)
  qed
  with no_records_run [OF assms, of A] show ?thesis
    by blast
qed

theorem no_specGloss_after_run_witness:
  "KHR_MATERIALS_PBR_SPECULAR_GLOSSINESS \<in> set (extensionsUsed doc0)
   \<and> metalRough exact_arith doc0 = Inr (doc0', complete_log)
   \<and> list_all (\<lambda>m. ext_specGloss m = None \<and> getExtension_specGloss doc0' m = None)
         (materials doc0')
   \<and> KHR_MATERIALS_PBR_SPECULAR_GLOSSINESS \<notin> set (extensionsUsed doc0')
   \<and> KHR_MATERIALS_PBR_SPECULAR_GLOSSINESS \<in> set (extensionsUsed doc_none)
   \<and> list_all (\<lambda>m. ext_specGloss m = None) (materials doc_none)
   \<and> metalRough exact_arith doc_none =
        Inr (dispose_specGlossExtension (createExtensions doc_none), complete_log)
   \<and> dispose_specGlossExtension (createExtensions doc_none) = doc_none'"
proof -
  have u: "KHR_MATERIALS_PBR_SPECULAR_GLOSSINESS \<in> set (extensionsUsed doc_none)"
    and n: "\<forall>m \<in> set (materials doc_none). ext_specGloss m = None"
    and e: "dispose_specGlossExtension (createExtensions doc_none) = doc_none'"
    by (simp_all add: doc_none_def doc_none'_def example_defs createExtensions_def
        createExtension_def dispose_specGlossExtension_def)
  from no_specGloss_after_run [OF doc0_used, of exact_arith doc0' complete_log]
    no_specGloss_after_run [OF u, of exact_arith doc_none' complete_log]
    doc0_used doc0_run u n e
  show ?thesis
    by (simp add: list_all_iff complete_log_def)
qed

text \<open>
  C4. A second run on the document that a first run returned gives that same document
  back: the spec/gloss extension is no longer declared there, so the second run only
  hands the warning to the logger.
\<close>

theorem second_run_noop:
  assumes "metalRough A doc = Inr (d', l)"
  shows "metalRough A d' = Inr (d', [Warn
     ''metalRough: Extension KHR_materials_pbrSpecularGlossiness not found on given document.''])"
  using second_run [OF assms] by (rule metalRough_unused)

theorem second_run_noop_witness:
  "metalRough exact_arith doc0 = Inr (doc0', complete_log)
   \<and> metalRough exact_arith doc0' = Inr (doc0', not_found_log)"
  using second_run_noop [OF doc0_run] doc0_run
  by (simp add: not_found_log_def)

text \<open>
  C5. The cleanup set holds, without duplicates, the combined specular+glossiness
  texture, the prior base-colour texture and the prior metallic-roughness texture of
  every material that carried a spec/gloss record (\<open>None\<close> for a texture that is not
  bound). The cleanup, run on the document \<open>dB\<close> in which the spec/gloss extension is
  disposed, disposes a texture of the set if and only if the texture has exactly one
  parent there; a texture outside the set, a texture with further parents and the
  \<open>None\<close> entries are left alone, and so is everything in the document but the
  textures.
\<close>

theorem orphan_cleanup:
  assumes "KHR_MATERIALS_PBR_SPECULAR_GLOSSINESS \<in> set (extensionsUsed doc)"
    and "metalRough A doc = Inr (d', l)"
    and "materialLoop A doc = Inr (d, inp)"
  shows "distinct inp
     \<and> set inp = (\<Union>k<length (materials doc). set (stashed doc k))
     \<and> d' = cleanUp inp (dispose_specGlossExtension d)
     \<and> (\<forall>t. Some t \<in> set inp \<longrightarrow>
           ((live (dispose_specGlossExtension d) t \<and> \<not> live d' t)
             \<longleftrightarrow> length (listParents (dispose_specGlossExtension d) t) = 1))
     \<and> (\<forall>t. Some t \<notin> set inp \<longrightarrow> live d' t = live (dispose_specGlossExtension d) t)
     \<and> (\<exists>txs. d' = (dispose_specGlossExtension d)\<lparr>textures := txs\<rparr>)"
proof -
  let ?dB = "dispose_specGlossExtension d"
  from metalRough_used [OF assms(1,2)] assms(3) have d': "d' = cleanUp inp ?dB"
    by auto
  from assms(3) have loop:
    "convertMaterials A [0..<length (materials doc)] (createExtensions doc, []) = Inr (d, inp)"
    by (simp add: materialLoop_def)
  have st: "stashed (createExtensions doc) k = stashed doc k" for k
    by (intro stashed_cong) (simp_all add: createExtensions_fields)
  from convertMaterials_inp [OF loop] have di: "distinct inp"
    and si: "set inp = (\<Union>k<length (materials doc). set (stashed doc k))"
    by (auto simp: st)
  obtain txs where c: "cleanUp inp ?dB = ?dB\<lparr>textures := txs\<rparr>"
    and len: "length txs = length (textures ?dB)"
    using cleanUp_fields by blast
  have tx: "textures d' ! t =
      (if Some t \<in> set inp \<and> length (listParents ?dB t) = 1 then None else textures ?dB ! t)"
    if "t < length (textures ?dB)" for t
    using cleanUp_textures [OF that, of inp] by (simp add: d')
  have lv: "live d' t \<longleftrightarrow> live ?dB t \<and> \<not> (Some t \<in> set inp \<and> length (listParents ?dB t) = 1)" for t
  proof (cases "t < length (textures ?dB)")
    case True
    with tx [OF True] c len show ?thesis by (auto simp: live_def d')
  next
    case False
    with c len show ?thesis by (simp add: live_def d')
  qed
  have one: "live ?dB t" if "length (listParents ?dB t) = 1" for t
    using one_parent(1) [OF that] .
  have a: "\<forall>t. Some t \<in> set inp \<longrightarrow>
           ((live ?dB t \<and> \<not> live d' t) \<longleftrightarrow> length (listParents ?dB t) = 1)"
    using lv one by blast
  have b: "\<forall>t. Some t \<notin> set inp \<longrightarrow> live d' t = live ?dB t"
    using lv by blast
  have e: "\<exists>txs. d' = ?dB\<lparr>textures := txs\<rparr>"
    using c d' by blast
  from di si d' a b e show ?thesis
    by (intro conjI)
qed

theorem orphan_cleanup_witness:
  "KHR_MATERIALS_PBR_SPECULAR_GLOSSINESS \<in> set (extensionsUsed doc_tex)
   \<and> metalRough exact_arith doc_tex = Inr (doc_tex', complete_log)
   \<and> materialLoop exact_arith doc_tex = Inr (doc_texL, inp_tex)
   \<and> distinct inp_tex
   \<and> set inp_tex = (\<Union>k<length (materials doc_tex). set (stashed doc_tex k))
   \<and> doc_tex' = cleanUp inp_tex (dispose_specGlossExtension doc_texL)
   \<and> Some 0 \<in> set inp_tex
   \<and> live (dispose_specGlossExtension doc_texL) 0 \<and> \<not> live doc_tex' 0
   \<and> listParents (dispose_specGlossExtension doc_texL) 0 = [Root]
   \<and> Some 3 \<in> set inp_tex
   \<and> live (dispose_specGlossExtension doc_texL) 3 \<and> live doc_tex' 3
   \<and> listParents (dispose_specGlossExtension doc_texL) 3 = [Root, MaterialParent 1]
   \<and> Some 1 \<notin> set inp_tex
   \<and> live (dispose_specGlossExtension doc_texL) 1 \<and> live doc_tex' 1"
proof -
  note oc = orphan_cleanup [OF doc_tex_used doc_tex_run doc_tex_loop, unfolded doc_tex_dispose]
  from oc have a: "Some t \<in> set inp_tex \<Longrightarrow>
      (live doc_texB t \<and> \<not> live doc_tex' t) = (length (listParents doc_texB t) = 1)" for t
    by blast
  from oc have b: "Some t \<notin> set inp_tex \<Longrightarrow> live doc_tex' t = live doc_texB t" for t
    by blast
  from oc have c: "distinct inp_tex"
    "set inp_tex = (\<Union>k<length (materials doc_tex). set (stashed doc_tex k))"
    "doc_tex' = cleanUp inp_tex doc_texB"
    by blast+
  have p0: "listParents doc_texB 0 = [Root]"
    and p3: "listParents doc_texB 3 = [Root, MaterialParent 1]"
    by (simp_all add: doc_texB_def doc_texL_def example_defs cleanUp_defs upt_conv_Cons)
  have lv: "live doc_texB 0" "live doc_texB 3" "live doc_texB 1"
    by (simp_all add: doc_texB_def doc_texL_def live_def)
  have m: "Some 0 \<in> set inp_tex" "Some 3 \<in> set inp_tex" "Some 1 \<notin> set inp_tex"
    by (simp_all add: inp_tex_def)
  have d0: "\<not> live doc_tex' 0" using a [OF m(1)] p0 lv(1) by simp
  have d3: "live doc_tex' 3" using a [OF m(2)] p3 lv(2) by simp
  have d1: "live doc_tex' 1" using b [OF m(3)] lv(3) by simp
  from c m p0 p3 lv d0 d3 d1 doc_tex_used doc_tex_run doc_tex_loop show ?thesis
    unfolding doc_tex_dispose by (intro conjI)
qed

text \<open>
  C6. If the document does not declare the spec/gloss extension as used, the run hands
  one warning to the logger and returns without error, and the document it returns is
  the document it was given: no material, texture or declared extension is modified.
\<close>

theorem unused_extension_noop:
  assumes "KHR_MATERIALS_PBR_SPECULAR_GLOSSINESS \<notin> set (extensionsUsed doc)"
  shows "metalRough A doc = Inr (doc, [Warn
     ''metalRough: Extension KHR_materials_pbrSpecularGlossiness not found on given document.''])"
  using assms by (rule metalRough_unused)

theorem unused_extension_noop_witness:
  "KHR_MATERIALS_PBR_SPECULAR_GLOSSINESS \<notin> set (extensionsUsed doc_plain)
   \<and> metalRough exact_arith doc_plain = Inr (doc_plain, not_found_log)"
  using unused_extension_noop [of doc_plain exact_arith]
  by (simp add: doc_plain_def doc0_def example_defs)

text \<open>
  C7. A material that has no spec/gloss record attached is skipped: its iteration of the
  loop returns the document and the set of stashed textures it was given, without an
  error. After the run the material is the same as before it, at the same place in the
  list of materials.
\<close>

theorem skipped_material_unchanged:
  assumes "metalRough A doc = Inr (d', l)" "k < length (materials doc)"
    "ext_specGloss (materials doc ! k) = None"
  shows "convertMaterial A k (doc, inp) = Inr (doc, inp)
     \<and> length (materials d') = length (materials doc) \<and> materials d' ! k = materials doc ! k"
  using skipped_material [OF assms] assms(3)
  by (simp add: convertMaterial_def getExtension_specGloss_def)

theorem skipped_material_unchanged_witness:
  "metalRough exact_arith doc0 = Inr (doc0', complete_log)
   \<and> 1 < length (materials doc0) \<and> ext_specGloss (materials doc0 ! 1) = None
   \<and> convertMaterial exact_arith 1 (doc0, []) = Inr (doc0, [])
   \<and> length (materials doc0') = length (materials doc0)
   \<and> materials doc0' ! 1 = materials doc0 ! 1"
proof -
  have k: "1 < length (materials doc0)" and n: "ext_specGloss (materials doc0 ! 1) = None"
    by (simp_all add: doc0_def mat1_def)
  from skipped_material_unchanged [OF doc0_run k n, of "[]"] doc0_run k n show ?thesis
    by simp
qed

text \<open>
  C8. For a material that carries a spec/gloss record, the metallic factor 0 and the
  roughness factor 1 are set before the branch on the combined texture is taken: the
  document that branch starts from has them at the material. After the run the metallic
  factor is 0, and when a combined specular+glossiness texture is bound the roughness
  factor is still 1.
\<close>

theorem placeholder_factors:
  assumes "KHR_MATERIALS_PBR_SPECULAR_GLOSSINESS \<in> set (extensionsUsed doc)"
    and "metalRough A doc = Inr (d', l)"
    and "k < length (materials doc)"
    and "getExtension_specGloss doc (materials doc ! k) = Some sg"
  shows "(k < length (materials d0) \<longrightarrow>
            metallicFactor (materials (moveDiffuse k sg (setUpMetalRough A k sg i s d0)) ! k)
              = num_lit A 0
          \<and> roughnessFactor (materials (moveDiffuse k sg (setUpMetalRough A k sg i s d0)) ! k)
              = num_lit A 1)
     \<and> metallicFactor (materials d' ! k) = num_lit A 0
     \<and> (specularGlossinessTexture sg \<noteq> None \<longrightarrow> roughnessFactor (materials d' ! k) = num_lit A 1)"
proof -
  from run_at [OF assms(1-3)] obtain d1 inp1 d2 inp2 where
    s: "convertMaterial A k (d1, inp1) = Inr (d2, inp2)"
    and k1: "k < length (materials d1)"
    and sg: "getExtension_specGloss d1 (materials d1 ! k) = Some sg"
    and m': "materials d' ! k = (materials d2 ! k)\<lparr>ext_specGloss := None\<rparr>"
    using assms(4) by auto
  note fac = step_factors [OF s k1 sg]
  have "metallicFactor (materials (moveDiffuse k sg (setUpMetalRough A k sg i s d0)) ! k)
          = num_lit A 0
      \<and> roughnessFactor (materials (moveDiffuse k sg (setUpMetalRough A k sg i s d0)) ! k)
          = num_lit A 1" if "k < length (materials d0)"
    using that by (simp add: moveDiffuse_def setUpMetalRough_def updMaterial_def split: option.splits)
  with fac show ?thesis
    by (auto simp: m')
qed

theorem placeholder_factors_witness:
  "KHR_MATERIALS_PBR_SPECULAR_GLOSSINESS \<in> set (extensionsUsed doc_tex)
   \<and> metalRough exact_arith doc_tex = Inr (doc_tex', complete_log)
   \<and> 0 < length (materials doc_tex)
   \<and> getExtension_specGloss doc_tex (materials doc_tex ! 0) = Some sgT
   \<and> specularGlossinessTexture sgT \<noteq> None
   \<and> metallicFactor (materials (moveDiffuse 0 sgT
         (setUpMetalRough exact_arith 0 sgT 0 0 doc_tex)) ! 0) = 0
   \<and> roughnessFactor (materials (moveDiffuse 0 sgT
         (setUpMetalRough exact_arith 0 sgT 0 0 doc_tex)) ! 0) = 1
   \<and> metallicFactor (materials doc_tex' ! 0) = 0
   \<and> roughnessFactor (materials doc_tex' ! 0) = 1"
proof -
  have k: "0 < length (materials doc_tex)"
    and sg: "getExtension_specGloss doc_tex (materials doc_tex ! 0) = Some sgT"
    and t: "specularGlossinessTexture sgT \<noteq> None"
    by (simp_all add: doc_tex_def matT_def mat0_def sgT_def getExtension_specGloss_def lookup_def)
  from placeholder_factors [OF doc_tex_used doc_tex_run k sg, of doc_tex 0 0]
    doc_tex_used doc_tex_run k sg t
  show ?thesis
    by (simp add: exact_arith_def)
qed

text \<open>
  C9. For a material that carries a spec/gloss record with a diffuse texture bound,
  after the run the base-colour texture of the material is that very texture (the same
  reference, not a copy), and the texture-coordinate index and the sampler settings of
  the base-colour binding are those of the diffuse binding. A diffuse texture that was
  in the document is still in it after the run, with the same image.
\<close>

theorem diffuse_texture_shared:
  assumes "KHR_MATERIALS_PBR_SPECULAR_GLOSSINESS \<in> set (extensionsUsed doc)"
    and "metalRough A doc = Inr (d', l)"
    and "k < length (materials doc)"
    and "getExtension_specGloss doc (materials doc ! k) = Some sg"
    and "diffuseTexture sg = Some dt"
  shows "baseColorTexture (materials d' ! k) = Some dt
     \<and> baseColorTextureInfo (materials d' ! k) = diffuseTextureInfo sg
     \<and> baseColorTextureSampler (materials d' ! k) = diffuseTextureSampler sg
     \<and> (live doc dt \<longrightarrow> live d' dt \<and> getImage d' dt = getImage doc dt)"
proof -
  from run_at [OF assms(1-3)] obtain d1 inp1 d2 inp2 dL inp where
    s: "convertMaterial A k (d1, inp1) = Inr (d2, inp2)"
    and k1: "k < length (materials d1)"
    and sg: "getExtension_specGloss d1 (materials d1 ! k) = Some sg"
    and t1: "extends (textures doc) (textures d1)"
    and g: "grows d2 dL" and mL: "materials dL ! k = materials d2 ! k"
    and kL: "k < length (materials dL)"
    and d': "d' = cleanUp inp (dispose_specGlossExtension dL)"
    and m': "materials d' ! k = (materials d2 ! k)\<lparr>ext_specGloss := None\<rparr>"
    using assms(4) by auto
  note dif = step_diffuse [OF s k1 sg assms(5)]
  let ?dB = "dispose_specGlossExtension dL"
  have "length (listParents ?dB dt) \<noteq> 1"
    using kL by (intro material_parent [of k]) (simp_all add: dispose_specGlossExtension_fields mL dif)
  note keep = cleanUp_getImage [OF this, of inp, folded d']
  have tL: "extends (textures doc) (textures dL)"
    using t1 grows_convertMaterial [OF s] g by (auto simp: grows_def intro: extends_trans)
  have "live d' dt \<and> getImage d' dt = getImage doc dt" if "live doc dt"
    using extends_live [OF tL that] by (simp add: keep dispose_specGlossExtension_fields)
  with dif show ?thesis
    by (simp add: m')
qed

theorem diffuse_texture_shared_witness:
  "KHR_MATERIALS_PBR_SPECULAR_GLOSSINESS \<in> set (extensionsUsed doc_tex)
   \<and> metalRough exact_arith doc_tex = Inr (doc_tex', complete_log)
   \<and> 0 < length (materials doc_tex)
   \<and> getExtension_specGloss doc_tex (materials doc_tex ! 0) = Some sgT
   \<and> diffuseTexture sgT = Some 1
   \<and> live doc_tex 1
   \<and> baseColorTexture (materials doc_tex' ! 0) = Some 1
   \<and> baseColorTextureInfo (materials doc_tex' ! 0) = info1
   \<and> baseColorTextureSampler (materials doc_tex' ! 0) = sampler1
   \<and> live doc_tex' 1
   \<and> getImage doc_tex' 1 = getImage doc_tex 1"
proof -
  have k: "0 < length (materials doc_tex)"
    and sg: "getExtension_specGloss doc_tex (materials doc_tex ! 0) = Some sgT"
    and t: "diffuseTexture sgT = Some 1"
    and lv: "live doc_tex 1"
    by (simp_all add: doc_tex_def matT_def mat0_def sgT_def getExtension_specGloss_def lookup_def
        live_def)
  from diffuse_texture_shared [OF doc_tex_used doc_tex_run k sg t]
    doc_tex_used doc_tex_run k sg t lv
  show ?thesis
    by (simp add: sgT_def)
qed

text \<open>
  C10. On a document that declares the spec/gloss extension as used, the run declares
  \<^verbatim>\<open>KHR_materials_ior\<close> and \<^verbatim>\<open>KHR_materials_specular\<close> as used before it enters the loop
  over the materials, and the extensions declared at the end are those declared then
  without the spec/gloss extension: both are still declared, also when no material had a
  spec/gloss record attached, in which case the materials are the ones given.
\<close>

theorem ior_specular_declared:
  assumes "KHR_MATERIALS_PBR_SPECULAR_GLOSSINESS \<in> set (extensionsUsed doc)"
    and "metalRough A doc = Inr (d', l)"
  shows "KHR_MATERIALS_IOR \<in> set (extensionsUsed (createExtensions doc))
     \<and> KHR_MATERIALS_SPECULAR \<in> set (extensionsUsed (createExtensions doc))
     \<and> extensionsUsed d' =
         removeAll KHR_MATERIALS_PBR_SPECULAR_GLOSSINESS (extensionsUsed (createExtensions doc))
     \<and> KHR_MATERIALS_IOR \<in> set (extensionsUsed d')
     \<and> KHR_MATERIALS_SPECULAR \<in> set (extensionsUsed d')
     \<and> ((\<forall>m \<in> set (materials doc). ext_specGloss m = None) \<longrightarrow> materials d' = materials doc)"
proof -
  from metalRough_used [OF assms] obtain d inp where
    loop: "materialLoop A doc = Inr (d, inp)" by blast
  note f = final_fields [OF assms loop]
  have ne: "KHR_MATERIALS_IOR \<noteq> KHR_MATERIALS_PBR_SPECULAR_GLOSSINESS"
    "KHR_MATERIALS_SPECULAR \<noteq> KHR_MATERIALS_PBR_SPECULAR_GLOSSINESS"
    by (simp_all add: KHR_MATERIALS_IOR_def KHR_MATERIALS_SPECULAR_def
        KHR_MATERIALS_PBR_SPECULAR_GLOSSINESS_def)
  have "materials d' = materials doc" if "\<forall>m \<in> set (materials doc). ext_specGloss m = None"
  proof (rule nth_equalityI)
    show "length (materials d') = length (materials doc)"
      using materialLoop_grows [OF loop] by (simp add: f grows_def createExtensions_fields)
    fix k assume "k < length (materials d')"
    with \<open>length (materials d') = length (materials doc)\<close> have k: "k < length (materials doc)"
      by simp
    with that have "ext_specGloss (materials doc ! k) = None" by simp
    from skipped_material [OF assms(2) k this] show "materials d' ! k = materials doc ! k" by simp
  qed
  with createExtensions_used [of doc] ne show ?thesis
    by (simp add: f)
qed

theorem ior_specular_declared_witness:
  "KHR_MATERIALS_PBR_SPECULAR_GLOSSINESS \<in> set (extensionsUsed doc_none)
   \<and> metalRough exact_arith doc_none = Inr (doc_none', complete_log)
   \<and> list_all (\<lambda>m. ext_specGloss m = None) (materials doc_none)
   \<and> KHR_MATERIALS_IOR \<in> set (extensionsUsed (createExtensions doc_none))
   \<and> KHR_MATERIALS_SPECULAR \<in> set (extensionsUsed (createExtensions doc_none))
   \<and> extensionsUsed doc_none' = removeAll KHR_MATERIALS_PBR_SPECULAR_GLOSSINESS
         (extensionsUsed (createExtensions doc_none))
   \<and> KHR_MATERIALS_IOR \<in> set (extensionsUsed doc_none')
   \<and> KHR_MATERIALS_SPECULAR \<in> set (extensionsUsed doc_none')
   \<and> materials doc_none' = materials doc_none"
proof -
  have u: "KHR_MATERIALS_PBR_SPECULAR_GLOSSINESS \<in> set (extensionsUsed doc_none)"
    and n: "\<forall>m \<in> set (materials doc_none). ext_specGloss m = None"
    by (simp_all add: doc_none_def example_defs)
  from ior_specular_declared [OF u doc_none_run] u n doc_none_run show ?thesis
    by (simp add: list_all_iff KHR_MATERIALS_IOR_def KHR_MATERIALS_SPECULAR_def
        KHR_MATERIALS_PBR_SPECULAR_GLOSSINESS_def)
qed

end
